theory Spec2Isabelle
  imports Main "HOL-Library.Word"
begin

unbundle bit_operations_syntax

section \<open>Go values: bytes, strings, panics and errors\<close>

text \<open>
  A Go \<^verbatim>\<open>byte\<close> is an 8-bit word, a \<^verbatim>\<open>[]byte\<close> a list of them, a Go \<^verbatim>\<open>string\<close>
  an immutable byte sequence, written here as a \<^typ>\<open>string\<close>. The conversions
  \<^verbatim>\<open>[]byte(s)\<close> and \<^verbatim>\<open>string(b)\<close> copy the bytes one by one. A nil slice and an
  empty slice are both the empty list. Cancellation through \<^verbatim>\<open>context.Context\<close>
  is not part of the model.
\<close>

type_synonym byte = "8 word"

definition byte_of_char :: "char \<Rightarrow> byte" where
  "byte_of_char c = of_nat (of_char c)"

definition char_of_byte :: "byte \<Rightarrow> char" where
  "char_of_byte b = char_of (unat b)"

definition bytes_of_string :: "string \<Rightarrow> byte list" where
  "bytes_of_string s = map byte_of_char s"

definition string_of_bytes :: "byte list \<Rightarrow> string" where
  "string_of_bytes b = map char_of_byte b"

text \<open>
  A run-time panic of Go is a value of the model. The first three are raised by
  the Go runtime (index expression, slice expression, \<^verbatim>\<open>make\<close>); the last is an
  explicit \<^verbatim>\<open>panic("...")\<close> of the program.
\<close>

datatype panic =
    IndexOutOfRange nat nat
  | SliceBoundsOutOfRange nat nat
  | MakeSliceLenOutOfRange
  | PanicString string

datatype 'a outcome = Panic panic | Return 'a

text \<open>The error values the package builds, one constructor for each \<^verbatim>\<open>xerrors.Errorf\<close>.\<close>

datatype error =
    ErrUnexpectedEOF
  | InvalidFrameType byte
  | InvalidCmdType byte
  | CouldNotMarshalCmd error
  | CouldNotReceiveCmd error
  | DidNotReceiveCmd
  | NotAConfigCmd "error option"

text \<open>The decimal rendering of \<^verbatim>\<open>%d\<close> and the messages of the runtime's panics.\<close>

fun itoa :: "nat \<Rightarrow> string" where
  "itoa n = (if n < 10 then [char_of (48 + n)] else itoa (n div 10) @ [char_of (48 + n mod 10)])"

declare itoa.simps [simp del]

fun panic_message :: "panic \<Rightarrow> string" where
  "panic_message (IndexOutOfRange i n) =
     ''runtime error: index out of range ['' @ itoa i @ ''] with length '' @ itoa n"
| "panic_message (SliceBoundsOutOfRange i n) =
     ''runtime error: slice bounds out of range ['' @ itoa i @ '':'' @ itoa n @ '']''"
| "panic_message MakeSliceLenOutOfRange = ''runtime error: makeslice: len out of range''"
| "panic_message (PanicString s) = s"

text \<open>The index expression \<^verbatim>\<open>xs[i]\<close> and the slice expression \<^verbatim>\<open>xs[i:]\<close>.\<close>

definition index :: "'a list \<Rightarrow> nat \<Rightarrow> 'a outcome" where
  "index xs i = (if i < length xs then Return (xs ! i) else Panic (IndexOutOfRange i (length xs)))"

definition slice_from :: "'a list \<Rightarrow> nat \<Rightarrow> 'a list outcome" where
  "slice_from xs i =
     (if i \<le> length xs then Return (drop i xs) else Panic (SliceBoundsOutOfRange i (length xs)))"

text \<open>Every Go string and slice has a length that fits the signed 64-bit \<^verbatim>\<open>int\<close>.\<close>

definition go_len_ok :: "'a list \<Rightarrow> bool" where
  "go_len_ok xs \<longleftrightarrow> length xs < 2 ^ 63"

section \<open>Little-endian integers (encoding/binary)\<close>

definition PutUint64 :: "64 word \<Rightarrow> byte list" where
  "PutUint64 v = [ucast v, ucast (drop_bit 8 v), ucast (drop_bit 16 v), ucast (drop_bit 24 v),
     ucast (drop_bit 32 v), ucast (drop_bit 40 v), ucast (drop_bit 48 v), ucast (drop_bit 56 v)]"

definition Uint64 :: "byte list \<Rightarrow> 64 word" where
  "Uint64 b = ucast (b ! 0) OR push_bit 8 (ucast (b ! 1)) OR push_bit 16 (ucast (b ! 2))
     OR push_bit 24 (ucast (b ! 3)) OR push_bit 32 (ucast (b ! 4)) OR push_bit 40 (ucast (b ! 5))
     OR push_bit 48 (ucast (b ! 6)) OR push_bit 56 (ucast (b ! 7))"

definition PutUint32 :: "32 word \<Rightarrow> byte list" where
  "PutUint32 v = [ucast v, ucast (drop_bit 8 v), ucast (drop_bit 16 v), ucast (drop_bit 24 v)]"

definition Uint32 :: "byte list \<Rightarrow> 32 word" where
  "Uint32 b = ucast (b ! 0) OR push_bit 8 (ucast (b ! 1)) OR push_bit 16 (ucast (b ! 2))
     OR push_bit 24 (ucast (b ! 3))"

section \<open>Encoder and decoder primitives\<close>

text \<open>
  Modelled from the spec: the files that define \<^verbatim>\<open>Encoder\<close>, \<^verbatim>\<open>Decoder\<close> and their
  \<^verbatim>\<open>WriteU8\<close>, \<^verbatim>\<open>WriteU32\<close>, \<^verbatim>\<open>WriteU64\<close>, \<^verbatim>\<open>WriteStr\<close>, \<^verbatim>\<open>ReadU8\<close>, \<^verbatim>\<open>ReadU32\<close>,
  \<^verbatim>\<open>ReadU64\<close>, \<^verbatim>\<open>ReadStr\<close> are missing. The spec: all integers are little-endian;
  strings are u64-length-prefixed; encoders and decoders accumulate the first error
  and become no-ops after it; a short read surfaces an unexpected-EOF error. The
  encoder writes into an in-memory buffer (\<^verbatim>\<open>bytes.Buffer\<close>), whose writes do not
  fail. A read that is a no-op yields the zero value.
\<close>

record Encoder =
  enc_buf :: "byte list"
  enc_err :: "error option"

definition NewEncoder :: "byte list \<Rightarrow> Encoder" where
  "NewEncoder w = \<lparr>enc_buf = w, enc_err = None\<rparr>"

definition enc_write :: "Encoder \<Rightarrow> byte list \<Rightarrow> Encoder" where
  "enc_write enc p = (if enc_err enc \<noteq> None then enc else enc\<lparr>enc_buf := enc_buf enc @ p\<rparr>)"

definition WriteU8 :: "Encoder \<Rightarrow> byte \<Rightarrow> Encoder" where
  "WriteU8 enc v = enc_write enc [v]"

definition WriteU32 :: "Encoder \<Rightarrow> 32 word \<Rightarrow> Encoder" where
  "WriteU32 enc v = enc_write enc (PutUint32 v)"

definition WriteU64 :: "Encoder \<Rightarrow> 64 word \<Rightarrow> Encoder" where
  "WriteU64 enc v = enc_write enc (PutUint64 v)"

definition WriteStr :: "Encoder \<Rightarrow> string \<Rightarrow> Encoder" where
  "WriteStr enc s = enc_write (WriteU64 enc (of_nat (length s))) (bytes_of_string s)"

record Decoder =
  dec_in :: "byte list"
  dec_err :: "error option"

definition NewDecoder :: "byte list \<Rightarrow> Decoder" where
  "NewDecoder r = \<lparr>dec_in = r, dec_err = None\<rparr>"

definition dec_read :: "Decoder \<Rightarrow> nat \<Rightarrow> byte list \<times> Decoder" where
  "dec_read dec n =
     (if dec_err dec \<noteq> None then ([], dec)
      else if length (dec_in dec) < n
        then ([], dec\<lparr>dec_in := [], dec_err := Some ErrUnexpectedEOF\<rparr>)
      else (take n (dec_in dec), dec\<lparr>dec_in := drop n (dec_in dec)\<rparr>))"

definition ReadU8 :: "Decoder \<Rightarrow> byte \<times> Decoder" where
  "ReadU8 dec = (case dec_read dec 1 of (b, dec') \<Rightarrow>
     (if dec_err dec' \<noteq> None then 0 else b ! 0, dec'))"

definition ReadU32 :: "Decoder \<Rightarrow> 32 word \<times> Decoder" where
  "ReadU32 dec = (case dec_read dec 4 of (b, dec') \<Rightarrow>
     (if dec_err dec' \<noteq> None then 0 else Uint32 b, dec'))"

definition ReadU64 :: "Decoder \<Rightarrow> 64 word \<times> Decoder" where
  "ReadU64 dec = (case dec_read dec 8 of (b, dec') \<Rightarrow>
     (if dec_err dec' \<noteq> None then 0 else Uint64 b, dec'))"

definition ReadStr :: "Decoder \<Rightarrow> string \<times> Decoder" where
  "ReadStr dec = (case ReadU64 dec of (n, dec1) \<Rightarrow>
     (if dec_err dec1 \<noteq> None then ([], dec1)
      else (case dec_read dec1 (unat n) of (b, dec2) \<Rightarrow> (string_of_bytes b, dec2))))"

section \<open>Frames\<close>

text \<open>
  Modelled from the spec: the file that declares \<^verbatim>\<open>Frame\<close>, \<^verbatim>\<open>FrameType\<close>, \<^verbatim>\<open>sendFrame\<close>
  and \<^verbatim>\<open>RecvFrame\<close> is missing. The spec: a frame has a type among Unknown, Cmd,
  Data, OK, Err, EOF that fits one byte, a path and a body, both byte strings. On
  the wire a frame is a u64 length of the payload that follows, then the payload:
  a u8 type, a u32 path length, the path, and the body as the remainder. The
  writer computes the length over the type, path length, path and body bytes; the
  reader pulls the length, reads exactly that many bytes and parses them in one
  shot; a short read is an unexpected-EOF error. The stream written to and read
  from is an in-memory byte sequence.
\<close>

type_synonym FrameType = byte

abbreviation (input) FrameUnknown :: FrameType where "FrameUnknown \<equiv> 0"
abbreviation (input) FrameCmd :: FrameType where "FrameCmd \<equiv> 1"
abbreviation (input) FrameData :: FrameType where "FrameData \<equiv> 2"
abbreviation (input) FrameOK :: FrameType where "FrameOK \<equiv> 3"
abbreviation (input) FrameErr :: FrameType where "FrameErr \<equiv> 4"
abbreviation (input) FrameEOF :: FrameType where "FrameEOF \<equiv> 5"

record Frame =
  Frame_Type :: FrameType
  Frame_Path :: "byte list"
  Frame_Body :: "byte list"

definition zero_Frame :: Frame where
  "zero_Frame = \<lparr>Frame_Type = 0, Frame_Path = [], Frame_Body = []\<rparr>"

definition frame_payload :: "FrameType \<Rightarrow> byte list \<Rightarrow> byte list \<Rightarrow> byte list" where
  "frame_payload ftype path body =
     (let enc = NewEncoder [];
          enc = WriteU8 enc ftype;
          enc = WriteU32 enc (of_nat (length path));
          enc = enc_write enc path;
          enc = enc_write enc body
      in enc_buf enc)"

definition sendFrame :: "byte list \<Rightarrow> FrameType \<Rightarrow> byte list \<Rightarrow> byte list
    \<Rightarrow> (byte list \<times> error option) outcome" where
  "sendFrame w ftype path body =
     (let payload = frame_payload ftype path body;
          enc = NewEncoder w;
          enc = WriteU64 enc (of_nat (length payload));
          enc = enc_write enc payload
      in Return (enc_buf enc, enc_err enc))"

definition RecvFrame :: "byte list \<Rightarrow> ((Frame \<times> byte list) \<times> error option) outcome" where
  "RecvFrame r =
     (let dec = NewDecoder r;
          (n, dec) = ReadU64 dec;
          (payload, dec) = dec_read dec (unat n)
      in if dec_err dec \<noteq> None then Return ((zero_Frame, dec_in dec), dec_err dec)
         else
           (let pdec = NewDecoder payload;
                (ftype, pdec) = ReadU8 pdec;
                (plen, pdec) = ReadU32 pdec;
                (path, pdec) = dec_read pdec (unat plen)
            in if dec_err pdec \<noteq> None then Return ((zero_Frame, dec_in dec), dec_err pdec)
               else Return ((\<lparr>Frame_Type = ftype, Frame_Path = path, Frame_Body = dec_in pdec\<rparr>,
                             dec_in dec), None)))"

section \<open>Command types and their paths\<close>

type_synonym CmdType = byte

abbreviation (input) CmdUnknown :: CmdType where "CmdUnknown \<equiv> 0"
abbreviation (input) CmdJoin :: CmdType where "CmdJoin \<equiv> 1"
abbreviation (input) CmdConnect :: CmdType where "CmdConnect \<equiv> 2"
abbreviation (input) CmdConfig :: CmdType where "CmdConfig \<equiv> 3"
abbreviation (input) CmdInit :: CmdType where "CmdInit \<equiv> 4"
abbreviation (input) CmdReset :: CmdType where "CmdReset \<equiv> 5"
abbreviation (input) CmdStart :: CmdType where "CmdStart \<equiv> 6"
abbreviation (input) CmdStop :: CmdType where "CmdStop \<equiv> 7"
abbreviation (input) CmdTerm :: CmdType where "CmdTerm \<equiv> 8"
abbreviation (input) CmdStatus :: CmdType where "CmdStatus \<equiv> 9"
abbreviation (input) CmdLog :: CmdType where "CmdLog \<equiv> 10"

definition cmdNames :: "byte list list" where
  "cmdNames =
     [bytes_of_string ''/unknown'',
      bytes_of_string ''/join'',
      bytes_of_string ''/connect'',
      bytes_of_string ''/config'',
      bytes_of_string ''/init'',
      bytes_of_string ''/reset'',
      bytes_of_string ''/start'',
      bytes_of_string ''/stop'',
      bytes_of_string ''/term'',
      bytes_of_string ''/status'',
      bytes_of_string ''/log'']"

definition cmdTypeToPath :: "CmdType \<Rightarrow> byte list outcome" where
  "cmdTypeToPath cmd = index cmdNames (unat cmd)"

record Cmd =
  Cmd_Type :: CmdType
  Cmd_Body :: "byte list"

text \<open>
  \<^verbatim>\<open>CmdFrom\<close> and \<^verbatim>\<open>recvCmd\<close> build \<^verbatim>\<open>Cmd{Type: CmdType(frame.Body[0]), Body:
  frame.Body[1:]}\<close>. Go does not fix the order in which the index expression and
  the slice expression of this literal are evaluated; the compiled program
  evaluates the slice expression first, and so does the model. On an empty body
  both are out of range, and the panic raised is the one of the slice expression.
\<close>

definition zero_Cmd :: Cmd where
  "zero_Cmd = \<lparr>Cmd_Type = 0, Cmd_Body = []\<rparr>"

definition CmdFrom :: "Frame \<Rightarrow> (Cmd \<times> error option) outcome" where
  "CmdFrom frame =
     (if Frame_Type frame \<noteq> FrameCmd
        then Return (zero_Cmd, Some (InvalidFrameType (Frame_Type frame)))
      else
        (case slice_from (Frame_Body frame) 1 of
           Panic p \<Rightarrow> Panic p
         | Return bs \<Rightarrow>
             (case index (Frame_Body frame) 0 of
                Panic p \<Rightarrow> Panic p
              | Return b \<Rightarrow> Return (\<lparr>Cmd_Type = b, Cmd_Body = bs\<rparr>, None))))"

definition recvCmd :: "byte list \<Rightarrow> ((Cmd \<times> byte list) \<times> error option) outcome" where
  "recvCmd r =
     (case RecvFrame r of
        Panic p \<Rightarrow> Panic p
      | Return ((frame, r'), Some err) \<Rightarrow> Return ((zero_Cmd, r'), Some (CouldNotReceiveCmd err))
      | Return ((frame, r'), None) \<Rightarrow>
          (if Frame_Type frame \<noteq> FrameCmd then Return ((zero_Cmd, r'), Some DidNotReceiveCmd)
           else
             (case slice_from (Frame_Body frame) 1 of
                Panic p \<Rightarrow> Panic p
              | Return bs \<Rightarrow>
                  (case index (Frame_Body frame) 0 of
                     Panic p \<Rightarrow> Panic p
                   | Return b \<Rightarrow> Return ((\<lparr>Cmd_Type = b, Cmd_Body = bs\<rparr>, r'), None)))))"

section \<open>The join, config and status commands\<close>

record Port =
  Port_Name :: string
  Port_Addr :: string
  Port_Type :: string

definition zero_Port :: Port where
  "zero_Port = \<lparr>Port_Name = [], Port_Addr = [], Port_Type = []\<rparr>"

text \<open>
  The loop \<^verbatim>\<open>for _, p := range ports { enc.WriteStr(p.Name); enc.WriteStr(p.Addr);
  enc.WriteStr(p.Type) }\<close>, which the source writes out in each of the two marshal
  functions, for the input and for the output ports.
\<close>

fun write_ports :: "Encoder \<Rightarrow> Port list \<Rightarrow> Encoder" where
  "write_ports enc [] = enc"
| "write_ports enc (p # ps) =
     (let enc = WriteStr enc (Port_Name p);
          enc = WriteStr enc (Port_Addr p);
          enc = WriteStr enc (Port_Type p)
      in write_ports enc ps)"

text \<open>
  \<^verbatim>\<open>make([]Port, n)\<close> with \<^verbatim>\<open>n := int(dec.ReadU64())\<close>: the conversion to \<^verbatim>\<open>int\<close>
  reads the 64 bits as two's complement, and a negative length panics. The
  limit the allocator puts on a positive length is not modelled.
\<close>

definition make_ports :: "64 word \<Rightarrow> Port list outcome" where
  "make_ports n =
     (if sint n < 0 then Panic MakeSliceLenOutOfRange
      else Return (replicate (nat (sint n)) zero_Port))"

text \<open>
  The loop \<^verbatim>\<open>for i := range ports { p := &ports[i]; p.Name = dec.ReadStr();
  p.Addr = dec.ReadStr(); p.Type = dec.ReadStr() }\<close> over the slice just made.
\<close>

fun read_ports :: "Port list \<Rightarrow> Decoder \<Rightarrow> Port list \<times> Decoder" where
  "read_ports [] dec = ([], dec)"
| "read_ports (p # ps) dec =
     (let (name, dec) = ReadStr dec;
          (addr, dec) = ReadStr dec;
          (type, dec) = ReadStr dec;
          (ps', dec) = read_ports ps dec
      in (p\<lparr>Port_Name := name, Port_Addr := addr, Port_Type := type\<rparr> # ps', dec))"

record JoinCmd =
  JoinCmd_Name :: string
  JoinCmd_InPorts :: "Port list"
  JoinCmd_OutPorts :: "Port list"

definition JoinCmd_CmdType :: "JoinCmd \<Rightarrow> CmdType" where
  "JoinCmd_CmdType cmd = CmdJoin"

definition JoinCmd_MarshalTDAQ :: "JoinCmd \<Rightarrow> byte list \<times> error option" where
  "JoinCmd_MarshalTDAQ cmd =
     (let enc = NewEncoder [];
          enc = WriteStr enc (JoinCmd_Name cmd);
          enc = WriteU64 enc (of_nat (length (JoinCmd_InPorts cmd)));
          enc = write_ports enc (JoinCmd_InPorts cmd);
          enc = WriteU64 enc (of_nat (length (JoinCmd_OutPorts cmd)));
          enc = write_ports enc (JoinCmd_OutPorts cmd)
      in (enc_buf enc, enc_err enc))"

text \<open>
  The method assigns all three fields of its receiver before it returns, so the
  model returns the command decoded together with the decoder's sticky error.
\<close>

definition JoinCmd_UnmarshalTDAQ :: "byte list \<Rightarrow> (JoinCmd \<times> error option) outcome" where
  "JoinCmd_UnmarshalTDAQ p =
     (let dec = NewDecoder p;
          (name, dec) = ReadStr dec;
          (n, dec) = ReadU64 dec
      in case make_ports n of
           Panic e \<Rightarrow> Panic e
         | Return inports \<Rightarrow>
             (let (inports, dec) = read_ports inports dec;
                  (n, dec) = ReadU64 dec
              in case make_ports n of
                   Panic e \<Rightarrow> Panic e
                 | Return outports \<Rightarrow>
                     (let (outports, dec) = read_ports outports dec
                      in Return (\<lparr>JoinCmd_Name = name, JoinCmd_InPorts = inports,
                                  JoinCmd_OutPorts = outports\<rparr>, dec_err dec))))"

record ConfigCmd =
  ConfigCmd_Name :: string
  ConfigCmd_InPorts :: "Port list"
  ConfigCmd_OutPorts :: "Port list"

definition zero_ConfigCmd :: ConfigCmd where
  "zero_ConfigCmd = \<lparr>ConfigCmd_Name = [], ConfigCmd_InPorts = [], ConfigCmd_OutPorts = []\<rparr>"

definition ConfigCmd_CmdType :: "ConfigCmd \<Rightarrow> CmdType" where
  "ConfigCmd_CmdType cmd = CmdConfig"

definition ConfigCmd_MarshalTDAQ :: "ConfigCmd \<Rightarrow> byte list \<times> error option" where
  "ConfigCmd_MarshalTDAQ cmd =
     (let enc = NewEncoder [];
          enc = WriteStr enc (ConfigCmd_Name cmd);
          enc = WriteU64 enc (of_nat (length (ConfigCmd_InPorts cmd)));
          enc = write_ports enc (ConfigCmd_InPorts cmd);
          enc = WriteU64 enc (of_nat (length (ConfigCmd_OutPorts cmd)));
          enc = write_ports enc (ConfigCmd_OutPorts cmd)
      in (enc_buf enc, enc_err enc))"

definition ConfigCmd_UnmarshalTDAQ :: "byte list \<Rightarrow> (ConfigCmd \<times> error option) outcome" where
  "ConfigCmd_UnmarshalTDAQ p =
     (let dec = NewDecoder p;
          (name, dec) = ReadStr dec;
          (n, dec) = ReadU64 dec
      in case make_ports n of
           Panic e \<Rightarrow> Panic e
         | Return inports \<Rightarrow>
             (let (inports, dec) = read_ports inports dec;
                  (n, dec) = ReadU64 dec
              in case make_ports n of
                   Panic e \<Rightarrow> Panic e
                 | Return outports \<Rightarrow>
                     (let (outports, dec) = read_ports outports dec
                      in Return (\<lparr>ConfigCmd_Name = name, ConfigCmd_InPorts = inports,
                                  ConfigCmd_OutPorts = outports\<rparr>, dec_err dec))))"

definition newConfigCmd :: "Frame \<Rightarrow> (ConfigCmd \<times> error option) outcome" where
  "newConfigCmd frame =
     (case CmdFrom frame of
        Panic p \<Rightarrow> Panic p
      | Return (raw, Some err) \<Rightarrow> Return (zero_ConfigCmd, Some (NotAConfigCmd (Some err)))
      | Return (raw, None) \<Rightarrow>
          (if Cmd_Type raw \<noteq> CmdConfig then Return (zero_ConfigCmd, Some (NotAConfigCmd None))
           else ConfigCmd_UnmarshalTDAQ (Cmd_Body raw)))"

text \<open>
  Modelled from the spec: the file that declares \<^verbatim>\<open>StatusCmd\<close> is missing. The spec:
  Status carries \<open>{Name, FSMState}\<close>, each command variant serializes its fields
  with the primitives, and the state is one of UnConf, Conf, Init, Stopped,
  Running, Exiting, Error. The state is taken as a one-byte enumeration, written
  and read as a u8 after the name.
\<close>

type_synonym fsm_Status = byte

abbreviation (input) fsm_UnConf :: fsm_Status where "fsm_UnConf \<equiv> 0"
abbreviation (input) fsm_Conf :: fsm_Status where "fsm_Conf \<equiv> 1"
abbreviation (input) fsm_Init :: fsm_Status where "fsm_Init \<equiv> 2"
abbreviation (input) fsm_Stopped :: fsm_Status where "fsm_Stopped \<equiv> 3"
abbreviation (input) fsm_Running :: fsm_Status where "fsm_Running \<equiv> 4"
abbreviation (input) fsm_Exiting :: fsm_Status where "fsm_Exiting \<equiv> 5"
abbreviation (input) fsm_Error :: fsm_Status where "fsm_Error \<equiv> 6"

record StatusCmd =
  StatusCmd_Name :: string
  StatusCmd_Status :: fsm_Status

definition StatusCmd_CmdType :: "StatusCmd \<Rightarrow> CmdType" where
  "StatusCmd_CmdType cmd = CmdStatus"

definition StatusCmd_MarshalTDAQ :: "StatusCmd \<Rightarrow> byte list \<times> error option" where
  "StatusCmd_MarshalTDAQ cmd =
     (let enc = NewEncoder [];
          enc = WriteStr enc (StatusCmd_Name cmd);
          enc = WriteU8 enc (StatusCmd_Status cmd)
      in (enc_buf enc, enc_err enc))"

definition StatusCmd_UnmarshalTDAQ :: "byte list \<Rightarrow> (StatusCmd \<times> error option) outcome" where
  "StatusCmd_UnmarshalTDAQ p =
     (let dec = NewDecoder p;
          (name, dec) = ReadStr dec;
          (status, dec) = ReadU8 dec
      in Return (\<lparr>StatusCmd_Name = name, StatusCmd_Status = status\<rparr>, dec_err dec))"

section \<open>The Cmder interface\<close>

text \<open>
  The interface value is a tagged sum of the types that implement it; a method
  call dispatches on the tag. \<^verbatim>\<open>UnmarshalTDAQ\<close> is called on a receiver, whose
  dynamic type selects the method and whose fields the method overwrites.
\<close>

datatype Cmder = Join JoinCmd | Config ConfigCmd | Status StatusCmd

fun Cmder_CmdType :: "Cmder \<Rightarrow> CmdType" where
  "Cmder_CmdType (Join c) = JoinCmd_CmdType c"
| "Cmder_CmdType (Config c) = ConfigCmd_CmdType c"
| "Cmder_CmdType (Status c) = StatusCmd_CmdType c"

fun Cmder_MarshalTDAQ :: "Cmder \<Rightarrow> byte list \<times> error option" where
  "Cmder_MarshalTDAQ (Join c) = JoinCmd_MarshalTDAQ c"
| "Cmder_MarshalTDAQ (Config c) = ConfigCmd_MarshalTDAQ c"
| "Cmder_MarshalTDAQ (Status c) = StatusCmd_MarshalTDAQ c"

fun Cmder_UnmarshalTDAQ :: "Cmder \<Rightarrow> byte list \<Rightarrow> (Cmder \<times> error option) outcome" where
  "Cmder_UnmarshalTDAQ (Join _) p =
     (case JoinCmd_UnmarshalTDAQ p of Panic e \<Rightarrow> Panic e | Return (c, err) \<Rightarrow> Return (Join c, err))"
| "Cmder_UnmarshalTDAQ (Config _) p =
     (case ConfigCmd_UnmarshalTDAQ p of Panic e \<Rightarrow> Panic e | Return (c, err) \<Rightarrow> Return (Config c, err))"
| "Cmder_UnmarshalTDAQ (Status _) p =
     (case StatusCmd_UnmarshalTDAQ p of Panic e \<Rightarrow> Panic e | Return (c, err) \<Rightarrow> Return (Status c, err))"

definition cmd :: "Cmd \<Rightarrow> (Cmder option \<times> error option) outcome" where
  "cmd raw =
     (if Cmd_Type raw = CmdJoin then
        (case slice_from (Cmd_Body raw) 1 of
           Panic p \<Rightarrow> Panic p
         | Return body \<Rightarrow>
             (case JoinCmd_UnmarshalTDAQ body of
                Panic p \<Rightarrow> Panic p
              | Return (c, err) \<Rightarrow> Return (Some (Join c), err)))
      else if Cmd_Type raw = CmdConnect then Panic (PanicString ''not implemented'')
      else if Cmd_Type raw = CmdInit then Panic (PanicString ''not implemented'')
      else if Cmd_Type raw = CmdConfig then Panic (PanicString ''not implemented'')
      else if Cmd_Type raw = CmdReset then Panic (PanicString ''not implemented'')
      else if Cmd_Type raw = CmdStart then Panic (PanicString ''not implemented'')
      else if Cmd_Type raw = CmdStop then Panic (PanicString ''not implemented'')
      else if Cmd_Type raw = CmdTerm then Panic (PanicString ''not implemented'')
      else if Cmd_Type raw = CmdStatus then Panic (PanicString ''not implemented'')
      else if Cmd_Type raw = CmdLog then Panic (PanicString ''not implemented'')
      else Return (None, Some (InvalidCmdType (Cmd_Type raw))))"

definition SendCmd :: "byte list \<Rightarrow> Cmder \<Rightarrow> (byte list \<times> error option) outcome" where
  "SendCmd w c =
     (case Cmder_MarshalTDAQ c of
        (raw, Some err) \<Rightarrow> Return (w, Some (CouldNotMarshalCmd err))
      | (raw, None) \<Rightarrow>
          (let ctype = Cmder_CmdType c
           in case cmdTypeToPath (Cmder_CmdType c) of
                Panic p \<Rightarrow> Panic p
              | Return path \<Rightarrow> sendFrame w FrameCmd path (ctype # raw)))"

definition sendCmd :: "byte list \<Rightarrow> CmdType \<Rightarrow> byte list \<Rightarrow> (byte list \<times> error option) outcome" where
  "sendCmd w ctype body =
     (case cmdTypeToPath ctype of
        Panic p \<Rightarrow> Panic p
      | Return path \<Rightarrow> sendFrame w FrameCmd path (ctype # body))"

section \<open>Wire images and well-formed values\<close>

text \<open>
  The bytes a value occupies on the wire, and the values whose lengths Go's types
  admit. These describe the format; the program's own functions are the ones
  above.
\<close>

definition str_bytes :: "string \<Rightarrow> byte list" where
  "str_bytes s = PutUint64 (of_nat (length s)) @ bytes_of_string s"

definition port_bytes :: "Port \<Rightarrow> byte list" where
  "port_bytes p = str_bytes (Port_Name p) @ str_bytes (Port_Addr p) @ str_bytes (Port_Type p)"

definition ports_bytes :: "Port list \<Rightarrow> byte list" where
  "ports_bytes ps = concat (map port_bytes ps)"

definition wf_Port :: "Port \<Rightarrow> bool" where
  "wf_Port p \<longleftrightarrow> go_len_ok (Port_Name p) \<and> go_len_ok (Port_Addr p) \<and> go_len_ok (Port_Type p)"

definition cmd_bytes :: "string \<Rightarrow> Port list \<Rightarrow> Port list \<Rightarrow> byte list" where
  "cmd_bytes name ins outs =
     str_bytes name @ PutUint64 (of_nat (length ins)) @ ports_bytes ins
       @ PutUint64 (of_nat (length outs)) @ ports_bytes outs"

definition wf_fields :: "string \<Rightarrow> Port list \<Rightarrow> Port list \<Rightarrow> bool" where
  "wf_fields name ins outs \<longleftrightarrow>
     go_len_ok name \<and> go_len_ok ins \<and> list_all wf_Port ins \<and> go_len_ok outs \<and> list_all wf_Port outs"

definition frame_bytes :: "FrameType \<Rightarrow> byte list \<Rightarrow> byte list \<Rightarrow> byte list" where
  "frame_bytes ftype path body =
     PutUint64 (of_nat (1 + 4 + length path + length body))
       @ ftype # PutUint32 (of_nat (length path)) @ path @ body"

fun wf_Cmder :: "Cmder \<Rightarrow> bool" where
  "wf_Cmder (Join c) = wf_fields (JoinCmd_Name c) (JoinCmd_InPorts c) (JoinCmd_OutPorts c)"
| "wf_Cmder (Config c) = wf_fields (ConfigCmd_Name c) (ConfigCmd_InPorts c) (ConfigCmd_OutPorts c)"
| "wf_Cmder (Status c) = go_len_ok (StatusCmd_Name c)"

text \<open>Two interface values of the same dynamic type.\<close>

fun same_type :: "Cmder \<Rightarrow> Cmder \<Rightarrow> bool" where
  "same_type (Join _) (Join _) = True"
| "same_type (Config _) (Config _) = True"
| "same_type (Status _) (Status _) = True"
| "same_type _ _ = False"

text \<open>The three fields of a join and of a config command, as a plain tuple.\<close>

definition JoinCmd_fields :: "JoinCmd \<Rightarrow> string \<times> Port list \<times> Port list" where
  "JoinCmd_fields c = (JoinCmd_Name c, JoinCmd_InPorts c, JoinCmd_OutPorts c)"

definition ConfigCmd_fields :: "ConfigCmd \<Rightarrow> string \<times> Port list \<times> Port list" where
  "ConfigCmd_fields c = (ConfigCmd_Name c, ConfigCmd_InPorts c, ConfigCmd_OutPorts c)"

text \<open>The canonical path of the command type of each implementation of the interface.\<close>

abbreviation (input) Cmder_path_of :: "Cmder \<Rightarrow> byte list" where
  "Cmder_path_of c \<equiv> (case c of Join _ \<Rightarrow> bytes_of_string ''/join''
                | Config _ \<Rightarrow> bytes_of_string ''/config''
                | Status _ \<Rightarrow> bytes_of_string ''/status'')"

section \<open>Little-endian round trips\<close>

lemma byte_block64:
  "bit (push_bit k (ucast (ucast (drop_bit k (v :: 64 word)) :: 8 word) :: 64 word)) n
     \<longleftrightarrow> k \<le> n \<and> n < k + 8 \<and> n < 64 \<and> bit v n"
  by (auto simp add: bit_push_bit_iff bit_ucast_iff bit_drop_bit_eq dest: bit_imp_le_length)

lemma byte_block64_0:
  "bit (ucast (ucast (v :: 64 word) :: 8 word) :: 64 word) n \<longleftrightarrow> n < 8 \<and> bit v n"
  by (auto simp add: bit_ucast_iff dest: bit_imp_le_length)

lemma byte_block32:
  "bit (push_bit k (ucast (ucast (drop_bit k (v :: 32 word)) :: 8 word) :: 32 word)) n
     \<longleftrightarrow> k \<le> n \<and> n < k + 8 \<and> n < 32 \<and> bit v n"
  by (auto simp add: bit_push_bit_iff bit_ucast_iff bit_drop_bit_eq dest: bit_imp_le_length)

lemma byte_block32_0:
  "bit (ucast (ucast (v :: 32 word) :: 8 word) :: 32 word) n \<longleftrightarrow> n < 8 \<and> bit v n"
  by (auto simp add: bit_ucast_iff dest: bit_imp_le_length)

lemma Uint64_PutUint64: "Uint64 (PutUint64 v) = v"
proof (rule bit_word_eqI)
  fix n :: nat
  assume n: "n < LENGTH(64)"
  have "bit (Uint64 (PutUint64 v)) n \<longleftrightarrow>
      (n < 8 \<and> bit v n) \<or> (8 \<le> n \<and> n < 8 + 8 \<and> n < 64 \<and> bit v n)
      \<or> (16 \<le> n \<and> n < 16 + 8 \<and> n < 64 \<and> bit v n) \<or> (24 \<le> n \<and> n < 24 + 8 \<and> n < 64 \<and> bit v n)
      \<or> (32 \<le> n \<and> n < 32 + 8 \<and> n < 64 \<and> bit v n) \<or> (40 \<le> n \<and> n < 40 + 8 \<and> n < 64 \<and> bit v n)
      \<or> (48 \<le> n \<and> n < 48 + 8 \<and> n < 64 \<and> bit v n) \<or> (56 \<le> n \<and> n < 56 + 8 \<and> n < 64 \<and> bit v n)"
    unfolding Uint64_def PutUint64_def
    by (simp only: nth_Cons_0 nth_Cons_numeral nth_Cons_Suc numeral_nat diff_Suc_1 One_nat_def
        bit_or_iff byte_block64 byte_block64_0)
  also have "\<dots> \<longleftrightarrow> bit v n"
    using n by (simp only: len_bit0 len_num1) arith
  finally show "bit (Uint64 (PutUint64 v)) n \<longleftrightarrow> bit v n" .
qed

lemma Uint32_PutUint32: "Uint32 (PutUint32 v) = v"
proof (rule bit_word_eqI)
  fix n :: nat
  assume n: "n < LENGTH(32)"
  have "bit (Uint32 (PutUint32 v)) n \<longleftrightarrow>
      (n < 8 \<and> bit v n) \<or> (8 \<le> n \<and> n < 8 + 8 \<and> n < 32 \<and> bit v n)
      \<or> (16 \<le> n \<and> n < 16 + 8 \<and> n < 32 \<and> bit v n) \<or> (24 \<le> n \<and> n < 24 + 8 \<and> n < 32 \<and> bit v n)"
    unfolding Uint32_def PutUint32_def
    by (simp only: nth_Cons_0 nth_Cons_numeral nth_Cons_Suc numeral_nat diff_Suc_1 One_nat_def
        bit_or_iff byte_block32 byte_block32_0)
  also have "\<dots> \<longleftrightarrow> bit v n"
    using n by (simp only: len_bit0 len_num1) arith
  finally show "bit (Uint32 (PutUint32 v)) n \<longleftrightarrow> bit v n" .
qed

lemma length_PutUint64: "length (PutUint64 v) = 8"
  by (simp add: PutUint64_def)

lemma length_PutUint32: "length (PutUint32 v) = 4"
  by (simp add: PutUint32_def)

lemma char_of_byte_of_char: "char_of_byte (byte_of_char c) = c"
  by (simp add: char_of_byte_def byte_of_char_def unat_of_nat)

lemma string_of_bytes_of_string: "string_of_bytes (bytes_of_string s) = s"
  by (simp add: string_of_bytes_def bytes_of_string_def char_of_byte_of_char comp_def)

lemma length_bytes_of_string: "length (bytes_of_string s) = length s"
  by (simp add: bytes_of_string_def)

section \<open>Encoder and decoder lemmas\<close>

lemma unat_of_nat64: "n < 2 ^ 64 \<Longrightarrow> unat (of_nat n :: 64 word) = n"
  by (simp add: unat_of_nat)

lemma unat_of_nat32: "n < 2 ^ 32 \<Longrightarrow> unat (of_nat n :: 32 word) = n"
  by (simp add: unat_of_nat)

lemma sint_of_nat64: "n < 2 ^ 63 \<Longrightarrow> sint (of_nat n :: 64 word) = int n"
  by (simp add: signed_of_nat signed_take_bit_int_eq_self)

lemma make_ports_length:
  "go_len_ok ps \<Longrightarrow> make_ports (of_nat (length ps)) = Return (replicate (length ps) zero_Port)"
  by (simp add: make_ports_def go_len_ok_def sint_of_nat64)

lemma enc_write_ok:
  "enc_write \<lparr>enc_buf = b, enc_err = None\<rparr> p = \<lparr>enc_buf = b @ p, enc_err = None\<rparr>"
  by (simp add: enc_write_def)

lemma WriteU8_ok:
  "WriteU8 \<lparr>enc_buf = b, enc_err = None\<rparr> v = \<lparr>enc_buf = b @ [v], enc_err = None\<rparr>"
  by (simp add: WriteU8_def enc_write_ok)

lemma WriteU32_ok:
  "WriteU32 \<lparr>enc_buf = b, enc_err = None\<rparr> v = \<lparr>enc_buf = b @ PutUint32 v, enc_err = None\<rparr>"
  by (simp add: WriteU32_def enc_write_ok)

lemma WriteU64_ok:
  "WriteU64 \<lparr>enc_buf = b, enc_err = None\<rparr> v = \<lparr>enc_buf = b @ PutUint64 v, enc_err = None\<rparr>"
  by (simp add: WriteU64_def enc_write_ok)

lemma WriteStr_ok:
  "WriteStr \<lparr>enc_buf = b, enc_err = None\<rparr> s = \<lparr>enc_buf = b @ str_bytes s, enc_err = None\<rparr>"
  by (simp add: WriteStr_def WriteU64_ok enc_write_ok str_bytes_def)

lemma write_ports_ok:
  "write_ports \<lparr>enc_buf = b, enc_err = None\<rparr> ps = \<lparr>enc_buf = b @ ports_bytes ps, enc_err = None\<rparr>"
  by (induction ps arbitrary: b) (simp_all add: WriteStr_ok ports_bytes_def port_bytes_def)

lemma dec_read_app:
  "dec_read \<lparr>dec_in = xs @ rest, dec_err = None\<rparr> (length xs)
     = (xs, \<lparr>dec_in = rest, dec_err = None\<rparr>)"
  by (simp add: dec_read_def)

lemma ReadU8_app:
  "ReadU8 \<lparr>dec_in = v # rest, dec_err = None\<rparr> = (v, \<lparr>dec_in = rest, dec_err = None\<rparr>)"
  using dec_read_app [of "[v]" rest] by (simp add: ReadU8_def)

lemma ReadU32_app:
  "ReadU32 \<lparr>dec_in = PutUint32 v @ rest, dec_err = None\<rparr> = (v, \<lparr>dec_in = rest, dec_err = None\<rparr>)"
  using dec_read_app [of "PutUint32 v" rest]
  by (simp add: ReadU32_def length_PutUint32 Uint32_PutUint32)

lemma ReadU64_app:
  "ReadU64 \<lparr>dec_in = PutUint64 v @ rest, dec_err = None\<rparr> = (v, \<lparr>dec_in = rest, dec_err = None\<rparr>)"
  using dec_read_app [of "PutUint64 v" rest]
  by (simp add: ReadU64_def length_PutUint64 Uint64_PutUint64)

lemma ReadStr_app:
  assumes "length s < 2 ^ 64"
  shows "ReadStr \<lparr>dec_in = str_bytes s @ rest, dec_err = None\<rparr>
     = (s, \<lparr>dec_in = rest, dec_err = None\<rparr>)"
  using dec_read_app [of "bytes_of_string s" rest] assms
  by (simp add: ReadStr_def str_bytes_def ReadU64_app unat_of_nat64 length_bytes_of_string
      string_of_bytes_of_string)

lemma go_len_ok_64: "go_len_ok xs \<Longrightarrow> length xs < 2 ^ 64"
  unfolding go_len_ok_def by (rule less_trans [where y = "2 ^ 63"]) simp_all

lemma read_port_app:
  assumes "wf_Port p"
  shows "read_ports (q # qs) \<lparr>dec_in = port_bytes p @ rest, dec_err = None\<rparr>
     = (case read_ports qs \<lparr>dec_in = rest, dec_err = None\<rparr> of (ps', dec) \<Rightarrow> (p # ps', dec))"
proof -
  from assms have n: "length (Port_Name p) < 2 ^ 64" and a: "length (Port_Addr p) < 2 ^ 64"
    and t: "length (Port_Type p) < 2 ^ 64"
    unfolding wf_Port_def by (blast intro: go_len_ok_64)+
  show ?thesis
    by (simp add: port_bytes_def ReadStr_app [OF n] ReadStr_app [OF a] ReadStr_app [OF t]
        split: prod.splits)
qed

lemma read_ports_app:
  "list_all wf_Port ps \<Longrightarrow> length qs = length ps \<Longrightarrow>
   read_ports qs \<lparr>dec_in = ports_bytes ps @ rest, dec_err = None\<rparr>
     = (ps, \<lparr>dec_in = rest, dec_err = None\<rparr>)"
proof (induction ps arbitrary: qs rest)
  case Nil
  then show ?case by (simp add: ports_bytes_def)
next
  case (Cons p ps)
  then obtain q qs' where qs: "qs = q # qs'" and len: "length qs' = length ps"
    by (cases qs) auto
  from Cons.prems have p: "wf_Port p" and ps: "list_all wf_Port ps" by simp_all
  have "ports_bytes (p # ps) @ rest = port_bytes p @ (ports_bytes ps @ rest)"
    by (simp add: ports_bytes_def)
  then show ?case
    using read_port_app [OF p, of q qs' "ports_bytes ps @ rest"] Cons.IH [OF ps len, of rest]
    by (simp add: qs)
qed

section \<open>Commands and frames on the wire\<close>

lemma JoinCmd_MarshalTDAQ_bytes:
  "JoinCmd_MarshalTDAQ c
     = (cmd_bytes (JoinCmd_Name c) (JoinCmd_InPorts c) (JoinCmd_OutPorts c), None)"
  by (simp add: JoinCmd_MarshalTDAQ_def NewEncoder_def WriteStr_ok WriteU64_ok write_ports_ok
      cmd_bytes_def)

lemma ConfigCmd_MarshalTDAQ_bytes:
  "ConfigCmd_MarshalTDAQ c
     = (cmd_bytes (ConfigCmd_Name c) (ConfigCmd_InPorts c) (ConfigCmd_OutPorts c), None)"
  by (simp add: ConfigCmd_MarshalTDAQ_def NewEncoder_def WriteStr_ok WriteU64_ok write_ports_ok
      cmd_bytes_def)

lemma StatusCmd_MarshalTDAQ_bytes:
  "StatusCmd_MarshalTDAQ c = (str_bytes (StatusCmd_Name c) @ [StatusCmd_Status c], None)"
  by (simp add: StatusCmd_MarshalTDAQ_def NewEncoder_def WriteStr_ok WriteU8_ok)

lemma decode_fields:
  assumes "wf_fields name ins outs"
  shows "ReadStr (NewDecoder (cmd_bytes name ins outs))
           = (name, \<lparr>dec_in = PutUint64 (of_nat (length ins)) @ ports_bytes ins
                @ PutUint64 (of_nat (length outs)) @ ports_bytes outs, dec_err = None\<rparr>)"
    and "make_ports (of_nat (length ins)) = Return (replicate (length ins) zero_Port)"
    and "read_ports (replicate (length ins) zero_Port)
           \<lparr>dec_in = ports_bytes ins @ PutUint64 (of_nat (length outs)) @ ports_bytes outs,
            dec_err = None\<rparr>
           = (ins, \<lparr>dec_in = PutUint64 (of_nat (length outs)) @ ports_bytes outs, dec_err = None\<rparr>)"
    and "make_ports (of_nat (length outs)) = Return (replicate (length outs) zero_Port)"
    and "read_ports (replicate (length outs) zero_Port) \<lparr>dec_in = ports_bytes outs, dec_err = None\<rparr>
           = (outs, \<lparr>dec_in = [], dec_err = None\<rparr>)"
proof -
  from assms have name: "length name < 2 ^ 64" and ins: "go_len_ok ins" "list_all wf_Port ins"
    and outs: "go_len_ok outs" "list_all wf_Port outs"
    unfolding wf_fields_def by (blast intro: go_len_ok_64)+
  show "ReadStr (NewDecoder (cmd_bytes name ins outs))
           = (name, \<lparr>dec_in = PutUint64 (of_nat (length ins)) @ ports_bytes ins
                @ PutUint64 (of_nat (length outs)) @ ports_bytes outs, dec_err = None\<rparr>)"
    by (simp add: NewDecoder_def cmd_bytes_def ReadStr_app [OF name])
  show "make_ports (of_nat (length ins)) = Return (replicate (length ins) zero_Port)"
    by (rule make_ports_length [OF ins(1)])
  show "make_ports (of_nat (length outs)) = Return (replicate (length outs) zero_Port)"
    by (rule make_ports_length [OF outs(1)])
  show "read_ports (replicate (length ins) zero_Port)
           \<lparr>dec_in = ports_bytes ins @ PutUint64 (of_nat (length outs)) @ ports_bytes outs,
            dec_err = None\<rparr>
           = (ins, \<lparr>dec_in = PutUint64 (of_nat (length outs)) @ ports_bytes outs, dec_err = None\<rparr>)"
    by (rule read_ports_app [OF ins(2)]) simp
  show "read_ports (replicate (length outs) zero_Port) \<lparr>dec_in = ports_bytes outs, dec_err = None\<rparr>
           = (outs, \<lparr>dec_in = [], dec_err = None\<rparr>)"
    using read_ports_app [OF outs(2), of "replicate (length outs) zero_Port" "[]"] by simp
qed

lemma JoinCmd_UnmarshalTDAQ_bytes:
  assumes "wf_fields name ins outs"
  shows "JoinCmd_UnmarshalTDAQ (cmd_bytes name ins outs)
     = Return (\<lparr>JoinCmd_Name = name, JoinCmd_InPorts = ins, JoinCmd_OutPorts = outs\<rparr>, None)"
  by (simp add: JoinCmd_UnmarshalTDAQ_def decode_fields [OF assms] ReadU64_app)

lemma ConfigCmd_UnmarshalTDAQ_bytes:
  assumes "wf_fields name ins outs"
  shows "ConfigCmd_UnmarshalTDAQ (cmd_bytes name ins outs)
     = Return (\<lparr>ConfigCmd_Name = name, ConfigCmd_InPorts = ins, ConfigCmd_OutPorts = outs\<rparr>, None)"
  by (simp add: ConfigCmd_UnmarshalTDAQ_def decode_fields [OF assms] ReadU64_app)

lemma StatusCmd_UnmarshalTDAQ_bytes:
  assumes "go_len_ok name"
  shows "StatusCmd_UnmarshalTDAQ (str_bytes name @ [st])
     = Return (\<lparr>StatusCmd_Name = name, StatusCmd_Status = st\<rparr>, None)"
  by (simp add: StatusCmd_UnmarshalTDAQ_def NewDecoder_def ReadStr_app [OF go_len_ok_64 [OF assms]]
      ReadU8_app)

lemma frame_payload_bytes:
  "frame_payload ftype path body = ftype # PutUint32 (of_nat (length path)) @ path @ body"
  by (simp add: frame_payload_def NewEncoder_def WriteU8_ok WriteU32_ok enc_write_ok)

lemma length_frame_payload:
  "length (frame_payload ftype path body) = 1 + 4 + length path + length body"
  by (simp add: frame_payload_bytes length_PutUint32)

lemma sendFrame_bytes:
  "sendFrame w ftype path body = Return (w @ frame_bytes ftype path body, None)"
  by (simp add: sendFrame_def Let_def NewEncoder_def WriteU64_ok enc_write_ok length_frame_payload
      frame_bytes_def)
    (simp add: frame_payload_bytes)

lemma RecvFrame_bytes:
  assumes path: "length path < 2 ^ 32"
    and total: "1 + 4 + length path + length body < 2 ^ 64"
  shows "RecvFrame (frame_bytes ftype path body @ rest)
     = Return ((\<lparr>Frame_Type = ftype, Frame_Path = path, Frame_Body = body\<rparr>, rest), None)"
proof -
  let ?payload = "ftype # PutUint32 (of_nat (length path)) @ path @ body"
  have len: "length ?payload = 1 + 4 + length path + length body"
    by (simp add: length_PutUint32)
  have n: "unat (of_nat (1 + 4 + length path + length body) :: 64 word) = length ?payload"
    using unat_of_nat64 [OF total] len by simp
  have hd: "ReadU64 (NewDecoder (frame_bytes ftype path body @ rest))
      = (of_nat (1 + 4 + length path + length body), \<lparr>dec_in = ?payload @ rest, dec_err = None\<rparr>)"
    using ReadU64_app [of "of_nat (1 + 4 + length path + length body)" "?payload @ rest"]
    by (simp add: NewDecoder_def frame_bytes_def)
  have pl: "dec_read \<lparr>dec_in = ?payload @ rest, dec_err = None\<rparr>
        (unat (of_nat (1 + 4 + length path + length body) :: 64 word))
      = (?payload, \<lparr>dec_in = rest, dec_err = None\<rparr>)"
    unfolding n by (rule dec_read_app)
  have ty: "ReadU8 (NewDecoder ?payload)
      = (ftype, \<lparr>dec_in = PutUint32 (of_nat (length path)) @ path @ body, dec_err = None\<rparr>)"
    by (simp add: NewDecoder_def ReadU8_app)
  have pa: "dec_read \<lparr>dec_in = path @ body, dec_err = None\<rparr> (unat (of_nat (length path) :: 32 word))
      = (path, \<lparr>dec_in = body, dec_err = None\<rparr>)"
    using dec_read_app [of path body] by (simp add: unat_of_nat32 [OF path])
  show ?thesis
    unfolding RecvFrame_def hd Let_def prod.case pl
    by (simp add: ty ReadU32_app pa)
qed

section \<open>Command paths\<close>

lemma cmdNames_length: "length cmdNames = 11"
  by (simp add: cmdNames_def)

lemma defined_range: "{c :: CmdType. c \<le> CmdLog} = {0, 1, 2, 3, 4, 5, 6, 7, 8, 9, 10}"
proof -
  have "c \<in> {0, 1, 2, 3, 4, 5, 6, 7, 8, 9, 10}" if "c \<le> 10" for c :: CmdType
  proof -
    from that have "unat c \<le> 10" by (simp add: word_le_nat_alt)
    then have "unat c \<in> {0, 1, 2, 3, 4, 5, 6, 7, 8, 9, 10}" by simp arith
    then have "of_nat (unat c) \<in> (of_nat ` {0, 1, 2, 3, 4, 5, 6, 7, 8, 9, 10 :: nat} :: CmdType set)"
      by (rule imageI)
    then show ?thesis by simp
  qed
  moreover have "c \<le> 10" if "c \<in> {0, 1, 2, 3, 4, 5, 6, 7, 8, 9, 10}" for c :: CmdType
    using that by auto
  ultimately show ?thesis by blast
qed

section \<open>Frames and commands: shared facts\<close>

lemma slice_then_index:
  "(case slice_from xs 1 of
      Panic p \<Rightarrow> Panic p
    | Return bs \<Rightarrow> (case index xs 0 of Panic p \<Rightarrow> Panic p | Return b \<Rightarrow> Return (f b bs)))
   = (case xs of [] \<Rightarrow> Panic (SliceBoundsOutOfRange 1 0) | b # bs \<Rightarrow> Return (f b bs))"
  by (cases xs) (simp_all add: index_def slice_from_def)

lemma CmdFrom_cases:
  "CmdFrom frame =
     (if Frame_Type frame \<noteq> FrameCmd
        then Return (zero_Cmd, Some (InvalidFrameType (Frame_Type frame)))
      else case Frame_Body frame of
             [] \<Rightarrow> Panic (SliceBoundsOutOfRange 1 0)
           | b # bs \<Rightarrow> Return (\<lparr>Cmd_Type = b, Cmd_Body = bs\<rparr>, None))"
  unfolding CmdFrom_def slice_then_index ..

lemma recvCmd_cases:
  "recvCmd r =
     (case RecvFrame r of
        Panic p \<Rightarrow> Panic p
      | Return ((frame, r'), Some err) \<Rightarrow> Return ((zero_Cmd, r'), Some (CouldNotReceiveCmd err))
      | Return ((frame, r'), None) \<Rightarrow>
          (if Frame_Type frame \<noteq> FrameCmd then Return ((zero_Cmd, r'), Some DidNotReceiveCmd)
           else case Frame_Body frame of
                  [] \<Rightarrow> Panic (SliceBoundsOutOfRange 1 0)
                | b # bs \<Rightarrow> Return ((\<lparr>Cmd_Type = b, Cmd_Body = bs\<rparr>, r'), None)))"
  unfolding recvCmd_def slice_then_index ..

lemma RecvFrame_no_panic: "RecvFrame r \<noteq> Panic p"
  by (simp add: RecvFrame_def Let_def split: prod.splits)

lemma cmdTypeToPath_out_of_range:
  "CmdLog < c \<Longrightarrow> cmdTypeToPath c = Panic (IndexOutOfRange (unat c) 11)"
  by (simp add: cmdTypeToPath_def index_def cmdNames_length word_less_nat_alt)

lemma go_len_ok_frame:
  assumes "go_len_ok (b # raw)" and "length path \<le> 8"
  shows "length path < 2 ^ 32" and "1 + 4 + length path + length (b # raw) < 2 ^ 64"
proof -
  show "length path < 2 ^ 32"
    by (rule le_less_trans [OF assms(2)]) simp
  have "length (b # raw) < 9223372036854775808"
    using assms(1) by (simp add: go_len_ok_def)
  with assms(2) have "1 + 4 + length path + length (b # raw) < 18446744073709551616"
    by linarith
  then show "1 + 4 + length path + length (b # raw) < 2 ^ 64"
    by simp
qed

lemma Cmder_path:
  "cmdTypeToPath (Cmder_CmdType c)
     = Return (case c of Join _ \<Rightarrow> bytes_of_string ''/join''
                | Config _ \<Rightarrow> bytes_of_string ''/config''
                | Status _ \<Rightarrow> bytes_of_string ''/status'')"
  by (cases c)
    (simp_all add: JoinCmd_CmdType_def ConfigCmd_CmdType_def StatusCmd_CmdType_def
      cmdTypeToPath_def index_def cmdNames_def)

lemma Cmder_path_length:
  "length (case c of Join _ \<Rightarrow> bytes_of_string ''/join''
                | Config _ \<Rightarrow> bytes_of_string ''/config''
                | Status _ \<Rightarrow> bytes_of_string ''/status'') \<le> 8"
  by (cases c) (simp_all add: bytes_of_string_def)

lemma SendCmd_bytes:
  assumes "Cmder_MarshalTDAQ c = (raw, None)"
  shows "SendCmd w c = sendFrame w FrameCmd (Cmder_path_of c) (Cmder_CmdType c # raw)"
  by (simp add: SendCmd_def assms Cmder_path)

lemma RecvFrame_cmd_frame:
  assumes "go_len_ok (Cmder_CmdType c # raw)"
  shows "RecvFrame (frame_bytes FrameCmd (Cmder_path_of c) (Cmder_CmdType c # raw))
            = Return ((\<lparr>Frame_Type = FrameCmd, Frame_Path = Cmder_path_of c,
                         Frame_Body = Cmder_CmdType c # raw\<rparr>, []), None)"
proof -
  note len = go_len_ok_frame [OF assms Cmder_path_length [of c]]
  show ?thesis
    using RecvFrame_bytes [where ftype = FrameCmd and rest = "[]", OF len] by simp
qed

lemma Cmder_unmarshal_marshal:
  assumes "wf_Cmder c" and "same_type recv c"
  shows "Cmder_MarshalTDAQ c = (fst (Cmder_MarshalTDAQ c), None)"
    and "Cmder_UnmarshalTDAQ recv (fst (Cmder_MarshalTDAQ c)) = Return (c, None)"
proof -
  show "Cmder_MarshalTDAQ c = (fst (Cmder_MarshalTDAQ c), None)"
    by (cases c)
      (simp_all add: JoinCmd_MarshalTDAQ_bytes ConfigCmd_MarshalTDAQ_bytes
        StatusCmd_MarshalTDAQ_bytes)
  show "Cmder_UnmarshalTDAQ recv (fst (Cmder_MarshalTDAQ c)) = Return (c, None)"
  proof (cases c)
    case (Join j)
    with assms obtain j' where "recv = Join j'" by (cases recv) simp_all
    with Join assms(1) show ?thesis
      by (simp add: JoinCmd_MarshalTDAQ_bytes JoinCmd_UnmarshalTDAQ_bytes)
  next
    case (Config j)
    with assms obtain j' where "recv = Config j'" by (cases recv) simp_all
    with Config assms(1) show ?thesis
      by (simp add: ConfigCmd_MarshalTDAQ_bytes ConfigCmd_UnmarshalTDAQ_bytes)
  next
    case (Status j)
    with assms obtain j' where "recv = Status j'" by (cases recv) simp_all
    with Status assms(1) show ?thesis
      by (simp add: StatusCmd_MarshalTDAQ_bytes StatusCmd_UnmarshalTDAQ_bytes)
  qed
qed

lemma cmd_bytes_n1:
  "cmd_bytes ''n1'' [] []
     = [2, 0, 0, 0, 0, 0, 0, 0, 110, 49, 0, 0, 0, 0, 0, 0, 0, 0, 0, 0, 0, 0, 0, 0, 0, 0]"
  by (simp add: cmd_bytes_def str_bytes_def ports_bytes_def PutUint64_def bytes_of_string_def
      byte_of_char_def)

lemma wf_fields_n1: "wf_fields ''n1'' [] []"
  by (simp add: wf_fields_def go_len_ok_def)

lemma Uint64_n: "Uint64 [0, 0, 0, 0, 0, 0, 0, 110] = 7926335344172072960"
  by (simp add: Uint64_def)

lemma ReadStr_late:
  "ReadStr (NewDecoder [0, 0, 0, 0, 0, 0, 0, 110, 49, 0, 0, 0, 0, 0, 0, 0, 0, 0, 0, 0, 0, 0, 0, 0, 0])
     = ([], \<lparr>dec_in = [], dec_err = Some ErrUnexpectedEOF\<rparr>)"
  by (simp add: ReadStr_def NewDecoder_def ReadU64_def dec_read_def Uint64_n string_of_bytes_def)

lemma ReadU64_sticky:
  "ReadU64 \<lparr>dec_in = [], dec_err = Some ErrUnexpectedEOF\<rparr>
     = (0, \<lparr>dec_in = [], dec_err = Some ErrUnexpectedEOF\<rparr>)"
  by (simp add: ReadU64_def dec_read_def)

lemma JoinCmd_UnmarshalTDAQ_late:
  "JoinCmd_UnmarshalTDAQ
     [0, 0, 0, 0, 0, 0, 0, 110, 49, 0, 0, 0, 0, 0, 0, 0, 0, 0, 0, 0, 0, 0, 0, 0, 0]
     = Return (\<lparr>JoinCmd_Name = [], JoinCmd_InPorts = [], JoinCmd_OutPorts = []\<rparr>,
         Some ErrUnexpectedEOF)"
  by (simp add: JoinCmd_UnmarshalTDAQ_def ReadStr_late ReadU64_sticky make_ports_def)

section \<open>Properties of the command codec\<close>

text \<open>
  C1. Command round trip. For each command variant (join, config, status, with any
  name and any port lists) whose strings and slices have lengths Go admits,
  \<^verbatim>\<open>MarshalTDAQ\<close> returns bytes and a nil error, and \<^verbatim>\<open>UnmarshalTDAQ\<close> of these
  bytes on a receiver of the same type yields a command equal to it, with a nil
  error. Moreover, when the frame body (the ctype byte followed by these bytes)
  fits a Go slice, \<^verbatim>\<open>SendCmd\<close> into an empty buffer succeeds, \<^verbatim>\<open>RecvFrame\<close> reads
  one frame back and leaves nothing, and \<^verbatim>\<open>UnmarshalTDAQ\<close> of \<^verbatim>\<open>frame.Body[1:]\<close>
  yields the command again. Equality is equality of field values; a nil and an
  empty slice are the same list.
\<close>

theorem command_roundtrip:
  assumes "wf_Cmder c" and "same_type recv c"
  shows "\<exists>raw. Cmder_MarshalTDAQ c = (raw, None)
     \<and> Cmder_UnmarshalTDAQ recv raw = Return (c, None)
     \<and> (go_len_ok (Cmder_CmdType c # raw) \<longrightarrow>
          (\<exists>w frame body. SendCmd [] c = Return (w, None)
             \<and> RecvFrame w = Return ((frame, []), None)
             \<and> slice_from (Frame_Body frame) 1 = Return body
             \<and> Cmder_UnmarshalTDAQ recv body = Return (c, None)))"
proof -
  let ?raw = "fst (Cmder_MarshalTDAQ c)"
  let ?path = "case c of Join _ \<Rightarrow> bytes_of_string ''/join''
                | Config _ \<Rightarrow> bytes_of_string ''/config''
                | Status _ \<Rightarrow> bytes_of_string ''/status''"
  let ?body = "Cmder_CmdType c # ?raw"
  note m = Cmder_unmarshal_marshal [OF assms]
  have "\<exists>w frame body. SendCmd [] c = Return (w, None)
             \<and> RecvFrame w = Return ((frame, []), None)
             \<and> slice_from (Frame_Body frame) 1 = Return body
             \<and> Cmder_UnmarshalTDAQ recv body = Return (c, None)"
    if ok: "go_len_ok ?body"
  proof (intro exI conjI)
    show "SendCmd [] c = Return (frame_bytes FrameCmd ?path ?body, None)"
      using SendCmd_bytes [OF m(1), of "[]"] by (simp add: sendFrame_bytes)
    show "RecvFrame (frame_bytes FrameCmd ?path ?body)
        = Return ((\<lparr>Frame_Type = FrameCmd, Frame_Path = ?path, Frame_Body = ?body\<rparr>, []), None)"
      by (rule RecvFrame_cmd_frame [OF ok])
    show "slice_from (Frame_Body \<lparr>Frame_Type = FrameCmd, Frame_Path = ?path, Frame_Body = ?body\<rparr>) 1
        = Return ?raw"
      by (simp add: slice_from_def)
    show "Cmder_UnmarshalTDAQ recv ?raw = Return (c, None)"
      by (rule m(2))
  qed
  with m show ?thesis by blast
qed

text \<open>The round trip of a join command with one input port.\<close>

theorem command_roundtrip_witness:
  "wf_Cmder (Join \<lparr>JoinCmd_Name = ''n1'',
        JoinCmd_InPorts = [\<lparr>Port_Name = ''n11'', Port_Addr = ''addr11'', Port_Type = ''type11''\<rparr>],
        JoinCmd_OutPorts = []\<rparr>)
   \<and> same_type (Join \<lparr>JoinCmd_Name = [], JoinCmd_InPorts = [], JoinCmd_OutPorts = []\<rparr>)
        (Join \<lparr>JoinCmd_Name = ''n1'',
        JoinCmd_InPorts = [\<lparr>Port_Name = ''n11'', Port_Addr = ''addr11'', Port_Type = ''type11''\<rparr>],
        JoinCmd_OutPorts = []\<rparr>)
   \<and> go_len_ok (CmdJoin # fst (Cmder_MarshalTDAQ (Join \<lparr>JoinCmd_Name = ''n1'',
        JoinCmd_InPorts = [\<lparr>Port_Name = ''n11'', Port_Addr = ''addr11'', Port_Type = ''type11''\<rparr>],
        JoinCmd_OutPorts = []\<rparr>)))
   \<and> Cmder_UnmarshalTDAQ (Join \<lparr>JoinCmd_Name = [], JoinCmd_InPorts = [], JoinCmd_OutPorts = []\<rparr>)
        (fst (Cmder_MarshalTDAQ (Join \<lparr>JoinCmd_Name = ''n1'',
        JoinCmd_InPorts = [\<lparr>Port_Name = ''n11'', Port_Addr = ''addr11'', Port_Type = ''type11''\<rparr>],
        JoinCmd_OutPorts = []\<rparr>)))
      = Return (Join \<lparr>JoinCmd_Name = ''n1'',
        JoinCmd_InPorts = [\<lparr>Port_Name = ''n11'', Port_Addr = ''addr11'', Port_Type = ''type11''\<rparr>],
        JoinCmd_OutPorts = []\<rparr>, None)
   \<and> (\<exists>w frame body. SendCmd [] (Join \<lparr>JoinCmd_Name = ''n1'',
        JoinCmd_InPorts = [\<lparr>Port_Name = ''n11'', Port_Addr = ''addr11'', Port_Type = ''type11''\<rparr>],
        JoinCmd_OutPorts = []\<rparr>) = Return (w, None)
        \<and> RecvFrame w = Return ((frame, []), None)
        \<and> slice_from (Frame_Body frame) 1 = Return body
        \<and> Cmder_UnmarshalTDAQ (Join \<lparr>JoinCmd_Name = [], JoinCmd_InPorts = [], JoinCmd_OutPorts = []\<rparr>)
             body
           = Return (Join \<lparr>JoinCmd_Name = ''n1'',
        JoinCmd_InPorts = [\<lparr>Port_Name = ''n11'', Port_Addr = ''addr11'', Port_Type = ''type11''\<rparr>],
        JoinCmd_OutPorts = []\<rparr>, None))"
proof -
  let ?c = "Join \<lparr>JoinCmd_Name = ''n1'',
        JoinCmd_InPorts = [\<lparr>Port_Name = ''n11'', Port_Addr = ''addr11'', Port_Type = ''type11''\<rparr>],
        JoinCmd_OutPorts = []\<rparr>"
  let ?z = "Join \<lparr>JoinCmd_Name = [], JoinCmd_InPorts = [], JoinCmd_OutPorts = []\<rparr>"
  have wf: "wf_Cmder ?c"
    by (simp add: wf_fields_def wf_Port_def go_len_ok_def)
  have st: "same_type ?z ?c"
    by simp
  have len: "go_len_ok (CmdJoin # fst (Cmder_MarshalTDAQ ?c))"
    by (simp add: go_len_ok_def JoinCmd_MarshalTDAQ_bytes cmd_bytes_def str_bytes_def
        ports_bytes_def port_bytes_def length_PutUint64 length_bytes_of_string)
  obtain raw where raw: "Cmder_MarshalTDAQ ?c = (raw, None)"
      "Cmder_UnmarshalTDAQ ?z raw = Return (?c, None)"
      "go_len_ok (Cmder_CmdType ?c # raw) \<longrightarrow>
          (\<exists>w frame body. SendCmd [] ?c = Return (w, None)
             \<and> RecvFrame w = Return ((frame, []), None)
             \<and> slice_from (Frame_Body frame) 1 = Return body
             \<and> Cmder_UnmarshalTDAQ ?z body = Return (?c, None))"
    using command_roundtrip [OF wf st] by blast
  from raw(1) have eq: "fst (Cmder_MarshalTDAQ ?c) = raw"
    by simp
  have ct: "Cmder_CmdType ?c = CmdJoin"
    by (simp add: JoinCmd_CmdType_def)
  from len raw(3) have "\<exists>w frame body. SendCmd [] ?c = Return (w, None)
             \<and> RecvFrame w = Return ((frame, []), None)
             \<and> slice_from (Frame_Body frame) 1 = Return body
             \<and> Cmder_UnmarshalTDAQ ?z body = Return (?c, None)"
    unfolding eq ct by blast
  with wf st len raw(2) show ?thesis
    unfolding eq by blast
qed

text \<open>
  C2. Frame round trip. For every frame whose path length fits the unsigned
  32-bit prefix and whose payload length fits the unsigned 64-bit prefix (the
  type is a byte), the writer succeeds and the reader, on what was written
  followed by any further bytes, returns a frame equal to it in type, path and
  body, and leaves the further bytes. The first eight bytes written are the
  length of the rest, and the rest is the type, the path length, the path and the
  body.
\<close>

theorem frame_roundtrip:
  assumes "length (Frame_Path f) < 2 ^ 32"
    and "1 + 4 + length (Frame_Path f) + length (Frame_Body f) < 2 ^ 64"
  shows "\<exists>w. sendFrame [] (Frame_Type f) (Frame_Path f) (Frame_Body f) = Return (w, None)
     \<and> RecvFrame (w @ rest) = Return ((f, rest), None)
     \<and> unat (Uint64 (take 8 w)) = length (drop 8 w)
     \<and> drop 8 w = Frame_Type f # PutUint32 (of_nat (length (Frame_Path f))) @ Frame_Path f
          @ Frame_Body f"
proof -
  let ?w = "frame_bytes (Frame_Type f) (Frame_Path f) (Frame_Body f)"
  have send: "sendFrame [] (Frame_Type f) (Frame_Path f) (Frame_Body f) = Return (?w, None)"
    by (simp add: sendFrame_bytes)
  have recv: "RecvFrame (?w @ rest) = Return ((f, rest), None)"
    using RecvFrame_bytes [OF assms, of "Frame_Type f" rest] by simp
  have payload: "drop 8 ?w = Frame_Type f # PutUint32 (of_nat (length (Frame_Path f)))
      @ Frame_Path f @ Frame_Body f"
    by (simp add: frame_bytes_def length_PutUint64)
  have "take 8 ?w = PutUint64 (of_nat (1 + 4 + length (Frame_Path f) + length (Frame_Body f)))"
    by (simp add: frame_bytes_def length_PutUint64)
  then have "unat (Uint64 (take 8 ?w)) = 1 + 4 + length (Frame_Path f) + length (Frame_Body f)"
    using unat_of_nat64 [OF assms(2)] by (simp only: Uint64_PutUint64)
  also have "\<dots> = length (drop 8 ?w)"
    unfolding payload by (simp add: length_PutUint32)
  finally show ?thesis
    using send recv payload by blast
qed

text \<open>A data frame with path \<^verbatim>\<open>/adc\<close> and a three-byte body, byte by byte.\<close>

theorem frame_roundtrip_witness:
  "length (Frame_Path \<lparr>Frame_Type = FrameData, Frame_Path = bytes_of_string ''/adc'',
        Frame_Body = [1, 2, 3]\<rparr>) < 2 ^ 32
   \<and> 1 + 4 + length (Frame_Path \<lparr>Frame_Type = FrameData, Frame_Path = bytes_of_string ''/adc'',
        Frame_Body = [1, 2, 3]\<rparr>)
       + length (Frame_Body \<lparr>Frame_Type = FrameData, Frame_Path = bytes_of_string ''/adc'',
        Frame_Body = [1, 2, 3]\<rparr>) < 2 ^ 64
   \<and> sendFrame [] FrameData (bytes_of_string ''/adc'') [1, 2, 3]
       = Return ([12, 0, 0, 0, 0, 0, 0, 0, 2, 4, 0, 0, 0, 47, 97, 100, 99, 1, 2, 3], None)
   \<and> RecvFrame ([12, 0, 0, 0, 0, 0, 0, 0, 2, 4, 0, 0, 0, 47, 97, 100, 99, 1, 2, 3] @ [9, 9])
       = Return ((\<lparr>Frame_Type = FrameData, Frame_Path = bytes_of_string ''/adc'',
            Frame_Body = [1, 2, 3]\<rparr>, [9, 9]), None)"
proof -
  let ?f = "\<lparr>Frame_Type = FrameData, Frame_Path = bytes_of_string ''/adc'', Frame_Body = [1, 2, 3]\<rparr>"
  have p: "length (Frame_Path ?f) < 2 ^ 32"
    by (simp add: bytes_of_string_def)
  have t: "1 + 4 + length (Frame_Path ?f) + length (Frame_Body ?f) < 2 ^ 64"
    by (simp add: bytes_of_string_def)
  have w: "sendFrame [] FrameData (bytes_of_string ''/adc'') [1, 2, 3]
       = Return ([12, 0, 0, 0, 0, 0, 0, 0, 2, 4, 0, 0, 0, 47, 97, 100, 99, 1, 2, 3], None)"
    by (simp add: sendFrame_bytes frame_bytes_def PutUint64_def PutUint32_def bytes_of_string_def
        byte_of_char_def)
  from frame_roundtrip [OF p t, of "[9, 9]"] w
  have "RecvFrame ([12, 0, 0, 0, 0, 0, 0, 0, 2, 4, 0, 0, 0, 47, 97, 100, 99, 1, 2, 3] @ [9, 9])
       = Return ((?f, [9, 9]), None)"
    by auto
  with p t w show ?thesis by blast
qed

text \<open>
  C3. For every command whose \<^verbatim>\<open>MarshalTDAQ\<close> succeeds with bytes \<open>raw\<close>, \<^verbatim>\<open>SendCmd\<close> is
  one call of \<^verbatim>\<open>sendFrame\<close> with type \<^verbatim>\<open>FrameCmd\<close>, the canonical path of the
  command's type (\<^verbatim>\<open>/join\<close>, \<^verbatim>\<open>/config\<close> or \<^verbatim>\<open>/status\<close>) and the body made of the ctype
  byte followed by exactly \<open>raw\<close>. It appends the bytes of that one frame to the
  stream and returns no error; when the body fits a Go slice, reading these bytes
  back gives that frame and nothing more.
\<close>

theorem SendCmd_frame:
  assumes "Cmder_MarshalTDAQ c = (raw, None)"
  shows "\<exists>path. cmdTypeToPath (Cmder_CmdType c) = Return path
     \<and> path = (case c of Join _ \<Rightarrow> bytes_of_string ''/join''
                | Config _ \<Rightarrow> bytes_of_string ''/config''
                | Status _ \<Rightarrow> bytes_of_string ''/status'')
     \<and> SendCmd w c = sendFrame w FrameCmd path (Cmder_CmdType c # raw)
     \<and> SendCmd w c = Return (w @ frame_bytes FrameCmd path (Cmder_CmdType c # raw), None)
     \<and> (go_len_ok (Cmder_CmdType c # raw) \<longrightarrow>
          RecvFrame (frame_bytes FrameCmd path (Cmder_CmdType c # raw))
            = Return ((\<lparr>Frame_Type = FrameCmd, Frame_Path = path,
                         Frame_Body = Cmder_CmdType c # raw\<rparr>, []), None))"
proof -
  let ?path = "case c of Join _ \<Rightarrow> bytes_of_string ''/join''
                | Config _ \<Rightarrow> bytes_of_string ''/config''
                | Status _ \<Rightarrow> bytes_of_string ''/status''"
  have send: "SendCmd w c = sendFrame w FrameCmd ?path (Cmder_CmdType c # raw)"
    by (rule SendCmd_bytes [OF assms])
  have recv: "RecvFrame (frame_bytes FrameCmd ?path (Cmder_CmdType c # raw))
            = Return ((\<lparr>Frame_Type = FrameCmd, Frame_Path = ?path,
                         Frame_Body = Cmder_CmdType c # raw\<rparr>, []), None)"
    if "go_len_ok (Cmder_CmdType c # raw)"
    by (rule RecvFrame_cmd_frame [OF that])
  show ?thesis
    using Cmder_path [of c] send recv by (simp add: sendFrame_bytes)
qed

text \<open>The frame sent for a status command named \<^verbatim>\<open>n1\<close> in state Running.\<close>

theorem SendCmd_frame_witness:
  "Cmder_MarshalTDAQ (Status \<lparr>StatusCmd_Name = ''n1'', StatusCmd_Status = fsm_Running\<rparr>)
     = ([2, 0, 0, 0, 0, 0, 0, 0, 110, 49, 4], None)
   \<and> cmdTypeToPath CmdStatus = Return (bytes_of_string ''/status'')
   \<and> SendCmd [] (Status \<lparr>StatusCmd_Name = ''n1'', StatusCmd_Status = fsm_Running\<rparr>)
     = Return (frame_bytes FrameCmd (bytes_of_string ''/status'')
                 [CmdStatus, 2, 0, 0, 0, 0, 0, 0, 0, 110, 49, 4], None)
   \<and> go_len_ok [CmdStatus, 2, 0, 0, 0, 0, 0, 0, 0, 110, 49, 4]
   \<and> RecvFrame (frame_bytes FrameCmd (bytes_of_string ''/status'')
                 [CmdStatus, 2, 0, 0, 0, 0, 0, 0, 0, 110, 49, 4])
     = Return ((\<lparr>Frame_Type = FrameCmd, Frame_Path = bytes_of_string ''/status'',
                  Frame_Body = [CmdStatus, 2, 0, 0, 0, 0, 0, 0, 0, 110, 49, 4]\<rparr>, []), None)"
proof -
  let ?c = "Status \<lparr>StatusCmd_Name = ''n1'', StatusCmd_Status = fsm_Running\<rparr>"
  have m: "Cmder_MarshalTDAQ ?c = ([2, 0, 0, 0, 0, 0, 0, 0, 110, 49, 4], None)"
    by (simp add: StatusCmd_MarshalTDAQ_bytes str_bytes_def PutUint64_def bytes_of_string_def
        byte_of_char_def)
  have ok: "go_len_ok [CmdStatus, 2, 0, 0, 0, 0, 0, 0, 0, 110, 49, 4]"
    by (simp add: go_len_ok_def)
  have ct: "Cmder_CmdType ?c = CmdStatus"
    by (simp add: StatusCmd_CmdType_def)
  from SendCmd_frame [OF m, of "[]"] ok m show ?thesis
    unfolding ct by auto
qed

text \<open>
  C4. \<^verbatim>\<open>CmdFrom\<close> returns an error exactly when the frame's type is not
  \<^verbatim>\<open>FrameCmd\<close>; whenever it returns without error the command is
  \<^verbatim>\<open>Cmd{Type: frame.Body[0], Body: frame.Body[1:]}\<close>, and it does return it for every
  \<^verbatim>\<open>FrameCmd\<close> frame whose body has a first byte. \<^verbatim>\<open>recvCmd\<close> calls \<^verbatim>\<open>RecvFrame\<close> once
  and returns an error exactly when \<^verbatim>\<open>RecvFrame\<close> returned one or the frame read is
  not of type \<^verbatim>\<open>FrameCmd\<close>; whenever it returns without error the command is built
  from the frame read in the same way, and the rest of the stream is what
  \<^verbatim>\<open>RecvFrame\<close> left. The panic on an empty body is neither an error nor a
  success.
\<close>

theorem recvCmd_CmdFrom_results:
  "((\<exists>c err. CmdFrom frame = Return (c, Some err)) \<longleftrightarrow> Frame_Type frame \<noteq> FrameCmd)
   \<and> (\<forall>c. CmdFrom frame = Return (c, None) \<longrightarrow>
        (\<exists>b bs. Frame_Body frame = b # bs \<and> c = \<lparr>Cmd_Type = b, Cmd_Body = bs\<rparr>))
   \<and> (\<forall>b bs. Frame_Type frame = FrameCmd \<and> Frame_Body frame = b # bs \<longrightarrow>
        CmdFrom frame = Return (\<lparr>Cmd_Type = b, Cmd_Body = bs\<rparr>, None))
   \<and> ((\<exists>c err. recvCmd r = Return (c, Some err)) \<longleftrightarrow>
        (\<exists>v err. RecvFrame r = Return (v, Some err))
        \<or> (\<exists>f rest. RecvFrame r = Return ((f, rest), None) \<and> Frame_Type f \<noteq> FrameCmd))
   \<and> (\<forall>c rest. recvCmd r = Return ((c, rest), None) \<longrightarrow>
        (\<exists>f b bs. RecvFrame r = Return ((f, rest), None) \<and> Frame_Type f = FrameCmd
           \<and> Frame_Body f = b # bs \<and> c = \<lparr>Cmd_Type = b, Cmd_Body = bs\<rparr>))
   \<and> (\<forall>f rest b bs. RecvFrame r = Return ((f, rest), None) \<and> Frame_Type f = FrameCmd
           \<and> Frame_Body f = b # bs \<longrightarrow>
        recvCmd r = Return ((\<lparr>Cmd_Type = b, Cmd_Body = bs\<rparr>, rest), None))"
proof (intro conjI)
  show "(\<exists>c err. CmdFrom frame = Return (c, Some err)) \<longleftrightarrow> Frame_Type frame \<noteq> FrameCmd"
    by (auto simp add: CmdFrom_cases split: list.splits)
  show "\<forall>c. CmdFrom frame = Return (c, None) \<longrightarrow>
        (\<exists>b bs. Frame_Body frame = b # bs \<and> c = \<lparr>Cmd_Type = b, Cmd_Body = bs\<rparr>)"
    by (auto simp add: CmdFrom_cases split: list.splits if_splits)
  show "\<forall>b bs. Frame_Type frame = FrameCmd \<and> Frame_Body frame = b # bs \<longrightarrow>
        CmdFrom frame = Return (\<lparr>Cmd_Type = b, Cmd_Body = bs\<rparr>, None)"
    by (simp add: CmdFrom_cases)
  show "(\<exists>c err. recvCmd r = Return (c, Some err)) \<longleftrightarrow>
        (\<exists>v err. RecvFrame r = Return (v, Some err))
        \<or> (\<exists>f rest. RecvFrame r = Return ((f, rest), None) \<and> Frame_Type f \<noteq> FrameCmd)"
    by (auto simp add: recvCmd_cases split: list.splits outcome.splits option.splits if_splits)
  show "\<forall>c rest. recvCmd r = Return ((c, rest), None) \<longrightarrow>
        (\<exists>f b bs. RecvFrame r = Return ((f, rest), None) \<and> Frame_Type f = FrameCmd
           \<and> Frame_Body f = b # bs \<and> c = \<lparr>Cmd_Type = b, Cmd_Body = bs\<rparr>)"
    by (auto simp add: recvCmd_cases split: list.splits outcome.splits option.splits if_splits)
  show "\<forall>f rest b bs. RecvFrame r = Return ((f, rest), None) \<and> Frame_Type f = FrameCmd
           \<and> Frame_Body f = b # bs \<longrightarrow>
        recvCmd r = Return ((\<lparr>Cmd_Type = b, Cmd_Body = bs\<rparr>, rest), None)"
    by (simp add: recvCmd_cases)
qed

text \<open>A command frame followed by one more byte, and a data frame.\<close>

theorem recvCmd_CmdFrom_results_witness:
  "RecvFrame [7, 0, 0, 0, 0, 0, 0, 0, 1, 0, 0, 0, 0, 9, 77, 42]
     = Return ((\<lparr>Frame_Type = FrameCmd, Frame_Path = [], Frame_Body = [CmdStatus, 77]\<rparr>, [42]),
         None)
   \<and> CmdFrom \<lparr>Frame_Type = FrameCmd, Frame_Path = [], Frame_Body = [CmdStatus, 77]\<rparr>
     = Return (\<lparr>Cmd_Type = CmdStatus, Cmd_Body = [77]\<rparr>, None)
   \<and> recvCmd [7, 0, 0, 0, 0, 0, 0, 0, 1, 0, 0, 0, 0, 9, 77, 42]
     = Return ((\<lparr>Cmd_Type = CmdStatus, Cmd_Body = [77]\<rparr>, [42]), None)
   \<and> (\<exists>c err. CmdFrom \<lparr>Frame_Type = FrameData, Frame_Path = [], Frame_Body = [CmdStatus, 77]\<rparr>
         = Return (c, Some err))
   \<and> RecvFrame [6, 0, 0, 0, 0, 0, 0, 0, 2, 0, 0, 0, 0, 9]
     = Return ((\<lparr>Frame_Type = FrameData, Frame_Path = [], Frame_Body = [9]\<rparr>, []), None)
   \<and> (\<exists>c err. recvCmd [6, 0, 0, 0, 0, 0, 0, 0, 2, 0, 0, 0, 0, 9] = Return (c, Some err))"
proof -
  let ?f = "\<lparr>Frame_Type = FrameCmd, Frame_Path = [], Frame_Body = [CmdStatus, 77]\<rparr>"
  let ?g = "\<lparr>Frame_Type = FrameData, Frame_Path = [], Frame_Body = [CmdStatus, 77]\<rparr>"
  let ?h = "\<lparr>Frame_Type = FrameData, Frame_Path = [], Frame_Body = [9]\<rparr>"
  let ?r = "[7, 0, 0, 0, 0, 0, 0, 0, 1, 0, 0, 0, 0, 9, 77, 42]"
  let ?s = "[6, 0, 0, 0, 0, 0, 0, 0, 2, 0, 0, 0, 0, 9]"
  have b: "?r = frame_bytes FrameCmd [] [CmdStatus, 77] @ [42]"
    by (simp add: frame_bytes_def PutUint64_def PutUint32_def)
  have r: "RecvFrame ?r = Return ((?f, [42]), None)"
    unfolding b by (rule RecvFrame_bytes) simp_all
  have b': "?s = frame_bytes FrameData [] [9] @ []"
    by (simp add: frame_bytes_def PutUint64_def PutUint32_def)
  have s: "RecvFrame ?s = Return ((?h, []), None)"
    unfolding b' by (rule RecvFrame_bytes) simp_all
  note F = recvCmd_CmdFrom_results [of ?f ?r]
  note G = recvCmd_CmdFrom_results [of ?g ?r]
  note H = recvCmd_CmdFrom_results [of ?h ?s]
  have c1: "CmdFrom ?f = Return (\<lparr>Cmd_Type = CmdStatus, Cmd_Body = [77]\<rparr>, None)"
    using F [THEN conjunct2, THEN conjunct2, THEN conjunct1] by simp
  have c2: "recvCmd ?r = Return ((\<lparr>Cmd_Type = CmdStatus, Cmd_Body = [77]\<rparr>, [42]), None)"
    using F [THEN conjunct2, THEN conjunct2, THEN conjunct2, THEN conjunct2, THEN conjunct2] r
    by simp
  have c3: "\<exists>c err. CmdFrom ?g = Return (c, Some err)"
    using G [THEN conjunct1] by simp
  have "\<exists>f rest. RecvFrame ?s = Return ((f, rest), None) \<and> Frame_Type f \<noteq> FrameCmd"
    using s by simp
  then have c4: "\<exists>c err. recvCmd ?s = Return (c, Some err)"
    using H [THEN conjunct2, THEN conjunct2, THEN conjunct2, THEN conjunct1] by blast
  from r c1 c2 c3 s c4 show ?thesis by blast
qed

text \<open>
  C5. At the command type 255 the conversion \<^verbatim>\<open>cmdTypeToPath\<close> indexes the
  11-element array \<^verbatim>\<open>cmdNames\<close> out of range: it panics with the runtime's index
  error, whose message is not \<^verbatim>\<open>invalid cmd-type 255\<close>.
\<close>

theorem cmdTypeToPath_255:
  "cmdTypeToPath 255 = Panic (IndexOutOfRange 255 11)
   \<and> panic_message (IndexOutOfRange 255 11)
       = ''runtime error: index out of range [255] with length 11''
   \<and> panic_message (IndexOutOfRange 255 11) \<noteq> ''invalid cmd-type 255''
   \<and> cmdTypeToPath 255 \<noteq> Panic (PanicString ''invalid cmd-type 255'')"
proof -
  have "cmdTypeToPath 255 = Panic (IndexOutOfRange 255 11)"
    by (simp add: cmdTypeToPath_def index_def cmdNames_def)
  moreover have "panic_message (IndexOutOfRange 255 11)
       = ''runtime error: index out of range [255] with length 11''"
    by code_simp
  ultimately show ?thesis by simp
qed

text \<open>
  C6. Over the defined range \<^verbatim>\<open>CmdUnknown\<close>..\<^verbatim>\<open>CmdLog\<close> every command type maps to its
  canonical path, in the order /unknown /join /connect /config /init /reset
  /start /stop /term /status /log, and the conversion is a bijection from that
  range onto these eleven paths.
\<close>

theorem cmdTypeToPath_bijection:
  "map cmdTypeToPath [CmdUnknown, CmdJoin, CmdConnect, CmdConfig, CmdInit, CmdReset, CmdStart,
      CmdStop, CmdTerm, CmdStatus, CmdLog]
     = map (\<lambda>s. Return (bytes_of_string s))
        [''/unknown'', ''/join'', ''/connect'', ''/config'', ''/init'', ''/reset'', ''/start'',
         ''/stop'', ''/term'', ''/status'', ''/log'']
   \<and> bij_betw cmdTypeToPath {c. CmdUnknown \<le> c \<and> c \<le> CmdLog}
        ((\<lambda>s. Return (bytes_of_string s)) `
           {''/unknown'', ''/join'', ''/connect'', ''/config'', ''/init'', ''/reset'', ''/start'',
            ''/stop'', ''/term'', ''/status'', ''/log''})"
proof -
  have vals: "map cmdTypeToPath [0, 1, 2, 3, 4, 5, 6, 7, 8, 9, 10]
     = map (\<lambda>s. Return (bytes_of_string s))
        [''/unknown'', ''/join'', ''/connect'', ''/config'', ''/init'', ''/reset'', ''/start'',
         ''/stop'', ''/term'', ''/status'', ''/log'']"
    by (simp add: cmdTypeToPath_def index_def cmdNames_def)
  have range: "{c :: CmdType. 0 \<le> c \<and> c \<le> 10} = set [0, 1, 2, 3, 4, 5, 6, 7, 8, 9, 10]"
    using defined_range by simp
  have inj: "inj_on cmdTypeToPath (set [0, 1, 2, 3, 4, 5, 6, 7, 8, 9, 10])"
    by (simp add: cmdTypeToPath_def index_def cmdNames_def bytes_of_string_def byte_of_char_def)
  have img: "cmdTypeToPath ` set [0, 1, 2, 3, 4, 5, 6, 7, 8, 9, 10]
      = (\<lambda>s. Return (bytes_of_string s)) `
           {''/unknown'', ''/join'', ''/connect'', ''/config'', ''/init'', ''/reset'', ''/start'',
            ''/stop'', ''/term'', ''/status'', ''/log''}"
    using arg_cong [OF vals, of set] unfolding set_map by simp
  show ?thesis
    unfolding bij_betw_def range using vals inj img by blast
qed

text \<open>
  C7. For a raw command whose type is one of Connect, Init, Config, Reset, Start,
  Stop, Term, Status or Log, \<^verbatim>\<open>cmd\<close> panics with \<^verbatim>\<open>not implemented\<close>. Whenever \<^verbatim>\<open>cmd\<close>
  returns a command, the type is Join and the command is the join command decoded
  from \<^verbatim>\<open>raw.Body[1:]\<close>. For a type above \<^verbatim>\<open>CmdLog\<close>, outside the defined range,
  \<^verbatim>\<open>cmd\<close> returns an error and no command, and does not panic; so it does for
  \<^verbatim>\<open>CmdUnknown\<close>, which falls to the same default branch.
\<close>

theorem cmd_dispatch:
  "(Cmd_Type raw \<in> {CmdConnect, CmdInit, CmdConfig, CmdReset, CmdStart, CmdStop, CmdTerm,
        CmdStatus, CmdLog} \<longrightarrow> cmd raw = Panic (PanicString ''not implemented''))
   \<and> (\<forall>c err. cmd raw = Return (Some c, err) \<longrightarrow>
        Cmd_Type raw = CmdJoin \<and> (\<exists>j body. c = Join j \<and> slice_from (Cmd_Body raw) 1 = Return body
           \<and> JoinCmd_UnmarshalTDAQ body = Return (j, err)))
   \<and> (CmdLog < Cmd_Type raw \<or> Cmd_Type raw = CmdUnknown \<longrightarrow>
        cmd raw = Return (None, Some (InvalidCmdType (Cmd_Type raw))))"
proof (intro conjI impI allI)
  assume "Cmd_Type raw \<in> {CmdConnect, CmdInit, CmdConfig, CmdReset, CmdStart, CmdStop, CmdTerm,
        CmdStatus, CmdLog}"
  then show "cmd raw = Panic (PanicString ''not implemented'')"
    by (auto simp add: cmd_def)
next
  fix c err
  assume r: "cmd raw = Return (Some c, err)"
  then show "Cmd_Type raw = CmdJoin"
    by (auto simp add: cmd_def split: if_splits)
  with r show "\<exists>j body. c = Join j \<and> slice_from (Cmd_Body raw) 1 = Return body
           \<and> JoinCmd_UnmarshalTDAQ body = Return (j, err)"
    by (auto simp add: cmd_def split: outcome.splits)
next
  assume "CmdLog < Cmd_Type raw \<or> Cmd_Type raw = CmdUnknown"
  then have "Cmd_Type raw \<notin> {1, 2, 3, 4, 5, 6, 7, 8, 9, 10}"
    by auto
  then show "cmd raw = Return (None, Some (InvalidCmdType (Cmd_Type raw)))"
    by (simp add: cmd_def)
qed

text \<open>A config, an out-of-range and a join raw command.\<close>

theorem cmd_dispatch_witness:
  "cmd \<lparr>Cmd_Type = CmdConfig, Cmd_Body = [2, 0, 0, 0, 0, 0, 0, 0, 110, 49]\<rparr>
     = Panic (PanicString ''not implemented'')
   \<and> cmd \<lparr>Cmd_Type = 200, Cmd_Body = []\<rparr> = Return (None, Some (InvalidCmdType 200))
   \<and> cmd \<lparr>Cmd_Type = CmdJoin, Cmd_Body = 0 # cmd_bytes ''n1'' [] []\<rparr>
     = Return (Some (Join \<lparr>JoinCmd_Name = ''n1'', JoinCmd_InPorts = [], JoinCmd_OutPorts = []\<rparr>),
         None)
   \<and> JoinCmd_UnmarshalTDAQ (cmd_bytes ''n1'' [] [])
     = Return (\<lparr>JoinCmd_Name = ''n1'', JoinCmd_InPorts = [], JoinCmd_OutPorts = []\<rparr>, None)"
proof -
  let ?r1 = "\<lparr>Cmd_Type = CmdConfig, Cmd_Body = [2, 0, 0, 0, 0, 0, 0, 0, 110, 49]\<rparr>"
  let ?r2 = "\<lparr>Cmd_Type = 200, Cmd_Body = []\<rparr> :: Cmd"
  let ?r3 = "\<lparr>Cmd_Type = CmdJoin, Cmd_Body = 0 # cmd_bytes ''n1'' [] []\<rparr>"
  let ?j = "\<lparr>JoinCmd_Name = ''n1'', JoinCmd_InPorts = [], JoinCmd_OutPorts = []\<rparr>"
  have h1: "Cmd_Type ?r1 \<in> {CmdConnect, CmdInit, CmdConfig, CmdReset, CmdStart, CmdStop, CmdTerm,
        CmdStatus, CmdLog}"
    by simp
  have h2: "CmdLog < Cmd_Type ?r2 \<or> Cmd_Type ?r2 = CmdUnknown"
    by simp
  have wf: "wf_fields ''n1'' [] []"
    by (simp add: wf_fields_def go_len_ok_def)
  have h3: "cmd ?r3 = Return (Some (Join ?j), None)"
    by (simp add: cmd_def slice_from_def JoinCmd_UnmarshalTDAQ_bytes [OF wf])
  from cmd_dispatch [of ?r3] h3
  have "\<exists>j body. Join ?j = Join j \<and> slice_from (Cmd_Body ?r3) 1 = Return body
           \<and> JoinCmd_UnmarshalTDAQ body = Return (j, None)"
    by blast
  then have c3: "JoinCmd_UnmarshalTDAQ (cmd_bytes ''n1'' [] []) = Return (?j, None)"
    by (auto simp add: slice_from_def)
  from cmd_dispatch [of ?r1] h1 have c1: "cmd ?r1 = Panic (PanicString ''not implemented'')"
    by blast
  from cmd_dispatch [of ?r2] h2 have c2: "cmd ?r2 = Return (None, Some (InvalidCmdType 200))"
    by auto
  from c1 c2 h3 c3 show ?thesis by blast
qed

text \<open>
  C8. The join command named \<^verbatim>\<open>n1\<close> without ports, sent with \<^verbatim>\<open>SendCmd\<close>, read back
  with \<^verbatim>\<open>RecvFrame\<close> and turned into a raw command by \<^verbatim>\<open>CmdFrom\<close>: the body of the raw
  command is exactly what \<^verbatim>\<open>MarshalTDAQ\<close> wrote and unmarshals to the command, but
  \<^verbatim>\<open>cmd\<close> skips one more byte and returns an empty join command with an
  unexpected-EOF error. \<^verbatim>\<open>newConfigCmd\<close>, on the same payload in a config frame,
  decodes from the byte after the ctype and returns the command.
\<close>

theorem cmd_Join_offset:
  "SendCmd [] (Join \<lparr>JoinCmd_Name = ''n1'', JoinCmd_InPorts = [], JoinCmd_OutPorts = []\<rparr>)
     = Return (frame_bytes FrameCmd (bytes_of_string ''/join'')
         [CmdJoin, 2, 0, 0, 0, 0, 0, 0, 0, 110, 49, 0, 0, 0, 0, 0, 0, 0, 0, 0, 0, 0, 0, 0, 0, 0, 0],
         None)
   \<and> RecvFrame (frame_bytes FrameCmd (bytes_of_string ''/join'')
         [CmdJoin, 2, 0, 0, 0, 0, 0, 0, 0, 110, 49, 0, 0, 0, 0, 0, 0, 0, 0, 0, 0, 0, 0, 0, 0, 0, 0])
     = Return ((\<lparr>Frame_Type = FrameCmd, Frame_Path = bytes_of_string ''/join'',
         Frame_Body =
           [CmdJoin, 2, 0, 0, 0, 0, 0, 0, 0, 110, 49, 0, 0, 0, 0, 0, 0, 0, 0, 0, 0, 0, 0, 0, 0, 0, 0]\<rparr>,
         []), None)
   \<and> CmdFrom \<lparr>Frame_Type = FrameCmd, Frame_Path = bytes_of_string ''/join'',
         Frame_Body =
           [CmdJoin, 2, 0, 0, 0, 0, 0, 0, 0, 110, 49, 0, 0, 0, 0, 0, 0, 0, 0, 0, 0, 0, 0, 0, 0, 0, 0]\<rparr>
     = Return (\<lparr>Cmd_Type = CmdJoin, Cmd_Body =
           [2, 0, 0, 0, 0, 0, 0, 0, 110, 49, 0, 0, 0, 0, 0, 0, 0, 0, 0, 0, 0, 0, 0, 0, 0, 0]\<rparr>, None)
   \<and> JoinCmd_UnmarshalTDAQ
         [2, 0, 0, 0, 0, 0, 0, 0, 110, 49, 0, 0, 0, 0, 0, 0, 0, 0, 0, 0, 0, 0, 0, 0, 0, 0]
     = Return (\<lparr>JoinCmd_Name = ''n1'', JoinCmd_InPorts = [], JoinCmd_OutPorts = []\<rparr>, None)
   \<and> cmd \<lparr>Cmd_Type = CmdJoin, Cmd_Body =
           [2, 0, 0, 0, 0, 0, 0, 0, 110, 49, 0, 0, 0, 0, 0, 0, 0, 0, 0, 0, 0, 0, 0, 0, 0, 0]\<rparr>
     = Return (Some (Join \<lparr>JoinCmd_Name = [], JoinCmd_InPorts = [], JoinCmd_OutPorts = []\<rparr>),
         Some ErrUnexpectedEOF)
   \<and> newConfigCmd \<lparr>Frame_Type = FrameCmd, Frame_Path = bytes_of_string ''/config'',
         Frame_Body =
           [CmdConfig, 2, 0, 0, 0, 0, 0, 0, 0, 110, 49, 0, 0, 0, 0, 0, 0, 0, 0, 0, 0, 0, 0, 0, 0, 0, 0]\<rparr>
     = Return (\<lparr>ConfigCmd_Name = ''n1'', ConfigCmd_InPorts = [], ConfigCmd_OutPorts = []\<rparr>, None)"
proof (intro conjI)
  let ?P = "[2, 0, 0, 0, 0, 0, 0, 0, 110, 49, 0, 0, 0, 0, 0, 0, 0, 0, 0, 0, 0, 0, 0, 0, 0, 0] :: byte list"
  let ?j = "\<lparr>JoinCmd_Name = ''n1'', JoinCmd_InPorts = [], JoinCmd_OutPorts = []\<rparr>"
  have m: "Cmder_MarshalTDAQ (Join ?j) = (?P, None)"
    by (simp add: JoinCmd_MarshalTDAQ_bytes cmd_bytes_n1)
  show "SendCmd [] (Join ?j)
     = Return (frame_bytes FrameCmd (bytes_of_string ''/join'') (CmdJoin # ?P), None)"
    using SendCmd_bytes [OF m, of "[]"] by (simp add: sendFrame_bytes JoinCmd_CmdType_def)
  show "RecvFrame (frame_bytes FrameCmd (bytes_of_string ''/join'') (CmdJoin # ?P))
     = Return ((\<lparr>Frame_Type = FrameCmd, Frame_Path = bytes_of_string ''/join'',
         Frame_Body = CmdJoin # ?P\<rparr>, []), None)"
    using RecvFrame_bytes [where ftype = FrameCmd and path = "bytes_of_string ''/join''"
        and body = "CmdJoin # ?P" and rest = "[]"]
    by (simp add: bytes_of_string_def)
  show "CmdFrom \<lparr>Frame_Type = FrameCmd, Frame_Path = bytes_of_string ''/join'',
         Frame_Body = CmdJoin # ?P\<rparr> = Return (\<lparr>Cmd_Type = CmdJoin, Cmd_Body = ?P\<rparr>, None)"
    by (simp add: CmdFrom_cases)
  show "JoinCmd_UnmarshalTDAQ ?P = Return (?j, None)"
    using JoinCmd_UnmarshalTDAQ_bytes [OF wf_fields_n1] by (simp only: cmd_bytes_n1)
  show "cmd \<lparr>Cmd_Type = CmdJoin, Cmd_Body = ?P\<rparr>
     = Return (Some (Join \<lparr>JoinCmd_Name = [], JoinCmd_InPorts = [], JoinCmd_OutPorts = []\<rparr>),
         Some ErrUnexpectedEOF)"
    by (simp add: cmd_def slice_from_def JoinCmd_UnmarshalTDAQ_late)
  show "newConfigCmd \<lparr>Frame_Type = FrameCmd, Frame_Path = bytes_of_string ''/config'',
         Frame_Body = CmdConfig # ?P\<rparr>
     = Return (\<lparr>ConfigCmd_Name = ''n1'', ConfigCmd_InPorts = [], ConfigCmd_OutPorts = []\<rparr>, None)"
    using ConfigCmd_UnmarshalTDAQ_bytes [OF wf_fields_n1]
    by (simp add: newConfigCmd_def CmdFrom_cases cmd_bytes_n1)
qed

text \<open>
  C9. For every name and every two port lists the marshal functions of the join
  and of the config command return the same bytes and the same error, and on
  every input the two unmarshal functions have the same outcome: the same panic,
  or the same three field values with the same error.
\<close>

theorem Join_Config_same_schema:
  "JoinCmd_MarshalTDAQ \<lparr>JoinCmd_Name = name, JoinCmd_InPorts = ins, JoinCmd_OutPorts = outs\<rparr>
     = ConfigCmd_MarshalTDAQ
         \<lparr>ConfigCmd_Name = name, ConfigCmd_InPorts = ins, ConfigCmd_OutPorts = outs\<rparr>
   \<and> map_outcome (map_prod JoinCmd_fields id) (JoinCmd_UnmarshalTDAQ p)
     = map_outcome (map_prod ConfigCmd_fields id) (ConfigCmd_UnmarshalTDAQ p)"
proof
  show "JoinCmd_MarshalTDAQ \<lparr>JoinCmd_Name = name, JoinCmd_InPorts = ins, JoinCmd_OutPorts = outs\<rparr>
     = ConfigCmd_MarshalTDAQ
         \<lparr>ConfigCmd_Name = name, ConfigCmd_InPorts = ins, ConfigCmd_OutPorts = outs\<rparr>"
    by (simp add: JoinCmd_MarshalTDAQ_def ConfigCmd_MarshalTDAQ_def)
  show "map_outcome (map_prod JoinCmd_fields id) (JoinCmd_UnmarshalTDAQ p)
     = map_outcome (map_prod ConfigCmd_fields id) (ConfigCmd_UnmarshalTDAQ p)"
    by (simp add: JoinCmd_UnmarshalTDAQ_def ConfigCmd_UnmarshalTDAQ_def JoinCmd_fields_def
        ConfigCmd_fields_def Let_def split: prod.splits outcome.splits)
qed

text \<open>
  C10. \<^verbatim>\<open>CmdFrom\<close> and \<^verbatim>\<open>recvCmd\<close> read \<^verbatim>\<open>Body[0]\<close> and \<^verbatim>\<open>Body[1:]\<close> without checking
  that the body is non-empty. For a frame of type \<^verbatim>\<open>FrameCmd\<close>, \<^verbatim>\<open>CmdFrom\<close> returns a
  command exactly when the body has at least one byte. With an empty body the
  index \<^verbatim>\<open>Body[0]\<close> is out of range, and so is the slice \<^verbatim>\<open>Body[1:]\<close>; the call ends
  in one of these two runtime panics, whichever operand is evaluated first, and
  returns nothing: neither a command nor an error value. The same holds for
  \<^verbatim>\<open>recvCmd\<close> on a stream from which \<^verbatim>\<open>RecvFrame\<close> reads such a frame.
\<close>

theorem CmdFrom_recvCmd_empty_body:
  "(Frame_Type frame = FrameCmd \<longrightarrow>
      ((\<exists>c. CmdFrom frame = Return (c, None)) \<longleftrightarrow> Frame_Body frame \<noteq> [])
      \<and> (Frame_Body frame = [] \<longrightarrow>
           index (Frame_Body frame) 0 = Panic (IndexOutOfRange 0 0)
           \<and> slice_from (Frame_Body frame) 1 = Panic (SliceBoundsOutOfRange 1 0)
           \<and> CmdFrom frame \<in> {Panic (IndexOutOfRange 0 0), Panic (SliceBoundsOutOfRange 1 0)}
           \<and> (\<forall>c err. CmdFrom frame \<noteq> Return (c, err))))
   \<and> (RecvFrame r = Return ((frame, r'), None) \<and> Frame_Type frame = FrameCmd \<longrightarrow>
      ((\<exists>c. recvCmd r = Return ((c, r'), None)) \<longleftrightarrow> Frame_Body frame \<noteq> [])
      \<and> (Frame_Body frame = [] \<longrightarrow>
           recvCmd r \<in> {Panic (IndexOutOfRange 0 0), Panic (SliceBoundsOutOfRange 1 0)}
           \<and> (\<forall>c err. recvCmd r \<noteq> Return (c, err))))"
proof (intro conjI impI)
  assume t: "Frame_Type frame = FrameCmd"
  show "(\<exists>c. CmdFrom frame = Return (c, None)) \<longleftrightarrow> Frame_Body frame \<noteq> []"
    using t by (auto simp add: CmdFrom_cases split: list.splits)
  assume e: "Frame_Body frame = []"
  show "index (Frame_Body frame) 0 = Panic (IndexOutOfRange 0 0)"
    by (simp add: e index_def)
  show "slice_from (Frame_Body frame) 1 = Panic (SliceBoundsOutOfRange 1 0)"
    by (simp add: e slice_from_def)
  show "CmdFrom frame \<in> {Panic (IndexOutOfRange 0 0), Panic (SliceBoundsOutOfRange 1 0)}"
    by (simp add: CmdFrom_cases t e)
  show "\<forall>c err. CmdFrom frame \<noteq> Return (c, err)"
    by (simp add: CmdFrom_cases t e)
next
  assume a: "RecvFrame r = Return ((frame, r'), None) \<and> Frame_Type frame = FrameCmd"
  show "(\<exists>c. recvCmd r = Return ((c, r'), None)) \<longleftrightarrow> Frame_Body frame \<noteq> []"
    using a by (auto simp add: recvCmd_cases split: list.splits)
  assume e: "Frame_Body frame = []"
  show "recvCmd r \<in> {Panic (IndexOutOfRange 0 0), Panic (SliceBoundsOutOfRange 1 0)}"
    using a by (simp add: recvCmd_cases e)
  show "\<forall>c err. recvCmd r \<noteq> Return (c, err)"
    using a by (simp add: recvCmd_cases e)
qed

text \<open>The thirteen bytes of a command frame with an empty path and an empty body.\<close>

theorem CmdFrom_recvCmd_empty_body_witness:
  "RecvFrame [5, 0, 0, 0, 0, 0, 0, 0, 1, 0, 0, 0, 0]
     = Return ((\<lparr>Frame_Type = FrameCmd, Frame_Path = [], Frame_Body = []\<rparr>, []), None)
   \<and> CmdFrom \<lparr>Frame_Type = FrameCmd, Frame_Path = [], Frame_Body = []\<rparr>
       \<in> {Panic (IndexOutOfRange 0 0), Panic (SliceBoundsOutOfRange 1 0)}
   \<and> recvCmd [5, 0, 0, 0, 0, 0, 0, 0, 1, 0, 0, 0, 0]
       \<in> {Panic (IndexOutOfRange 0 0), Panic (SliceBoundsOutOfRange 1 0)}
   \<and> (\<forall>c err. CmdFrom \<lparr>Frame_Type = FrameCmd, Frame_Path = [], Frame_Body = []\<rparr>
         \<noteq> Return (c, err))
   \<and> (\<forall>c err. recvCmd [5, 0, 0, 0, 0, 0, 0, 0, 1, 0, 0, 0, 0] \<noteq> Return (c, err))"
proof -
  let ?f = "\<lparr>Frame_Type = FrameCmd, Frame_Path = [], Frame_Body = []\<rparr>"
  let ?r = "[5, 0, 0, 0, 0, 0, 0, 0, 1, 0, 0, 0, 0] :: byte list"
  have b: "?r = frame_bytes FrameCmd [] [] @ []"
    by (simp add: frame_bytes_def PutUint64_def PutUint32_def)
  have r: "RecvFrame ?r = Return ((?f, []), None)"
    unfolding b by (rule RecvFrame_bytes) simp_all
  have t: "Frame_Type ?f = FrameCmd" and e: "Frame_Body ?f = []"
    by simp_all
  note E = CmdFrom_recvCmd_empty_body [of ?f ?r "[]"]
  from E [THEN conjunct1] t e
  have c: "CmdFrom ?f \<in> {Panic (IndexOutOfRange 0 0), Panic (SliceBoundsOutOfRange 1 0)}"
      "\<forall>c err. CmdFrom ?f \<noteq> Return (c, err)"
    by blast+
  from E [THEN conjunct2] r t e
  have d: "recvCmd ?r \<in> {Panic (IndexOutOfRange 0 0), Panic (SliceBoundsOutOfRange 1 0)}"
      "\<forall>c err. recvCmd ?r \<noteq> Return (c, err)"
    by blast+
  from r c d show ?thesis by blast
qed

end
